theory Spec2Isabelle
  imports Main "HOL-Library.Word"
begin

text \<open>
  A shallow embedding of the ingestion, chunking and retrieval core of mimir, a personal
  knowledge base written in Go, and the properties of its specification proved (or
  refuted) on it. Each Go function is a HOL function of the same name; what a function
  reads from the outside (the database, the file system, the network, a library) is an
  explicit argument, errors are values of type \<open>err\<close>, and a loop that need not end
  takes fuel. The definitions come first, then the inputs the theorems are exercised
  on, then the properties, each under the identifier (C1 to C10) of the statement it
  settles.
\<close>

section \<open>Errors\<close>

text \<open>
  Go error values. The sentinels of \<^verbatim>\<open>internal/store/errors.go\<close>, of the database
  driver and of packages \<^verbatim>\<open>os\<close> and \<^verbatim>\<open>context\<close> are constructors, \<open>LibError\<close> is
  any other error a library returns; \<^verbatim>\<open>fmt.Errorf\<close> keeps its format string and
  its arguments, and \<open>Wrapf\<close> is \<^verbatim>\<open>fmt.Errorf\<close> with a \<^verbatim>\<open>%w\<close> operand.
  \<open>PgError\<close> carries the SQLSTATE code of a \<^verbatim>\<open>*pgconn.PgError\<close>.
\<close>

datatype fmt_arg = S string | D int

datatype err =
    ErrNotFound
  | ErrDuplicate
  | ErrConflict
  | ErrForeignKeyViolation
  | PgxErrNoRows
  | PgError string
  | OsErrNotExist
  | OsErrPermission
  | ContextCanceled
  | ContextDeadlineExceeded
  | LibError string
  | Errorf string "fmt_arg list"
  | Wrapf string "fmt_arg list" err

text \<open>\<^verbatim>\<open>errors.Is(e, target)\<close>: walk the \<^verbatim>\<open>%w\<close> chain.\<close>

fun errors_Is :: "err \<Rightarrow> err \<Rightarrow> bool" where
  "errors_Is (Wrapf f as e) target = (Wrapf f as e = target \<or> errors_Is e target)"
| "errors_Is e target = (e = target)"

text \<open>\<^verbatim>\<open>errors.As(e, &pgErr)\<close> for \<^verbatim>\<open>*pgconn.PgError\<close>: the code of the first
  \<open>PgError\<close> on the chain.\<close>

fun errors_As_PgError :: "err \<Rightarrow> string option" where
  "errors_As_PgError (PgError code) = Some code"
| "errors_As_PgError (Wrapf f as e) = errors_As_PgError e"
| "errors_As_PgError e = None"

section \<open>The primary store\<close>

text \<open>\<^verbatim>\<open>models.Content\<close>; instants are integers, a nil pointer is \<open>None\<close>.\<close>

record Content =
  ID :: int
  SourceID :: int
  Title :: string
  Body :: string
  ContentHash :: string
  FilePath :: "string option"
  FileSize :: "int option"
  ContentType :: string
  Metadata :: "string option"
  EmbeddingID :: "string option"
  IsEmbedded :: bool
  LastAccessedAt :: "int option"
  ModifiedAt :: "int option"
  Summary :: "string option"
  CreatedAt :: int
  UpdatedAt :: int

text \<open>A row of \<^verbatim>\<open>background_jobs\<close> as \<^verbatim>\<open>RecordJobEnqueue\<close> writes it.\<close>

record BackgroundJob =
  bj_id :: int
  bj_job_id :: string
  bj_task_type :: string
  bj_payload :: string
  bj_queue :: string
  bj_status :: string
  bj_related_entity_type :: string
  bj_related_entity_id :: "int option"
  bj_created_at :: int
  bj_updated_at :: int

text \<open>\<^verbatim>\<open>store.JobRecordParams\<close>; a nil payload is \<open>None\<close>.\<close>

record JobRecordParams =
  JobID :: string
  TaskType :: string
  Payload :: "string option"
  Queue :: string
  Status :: string
  RelatedEntityType :: string
  RelatedEntityID :: int

text \<open>
  Where a statement can fail for reasons outside the tables (connection lost, a value
  the server rejects): when the statement is sent, when a returned row is scanned, or
  when the iteration over the rows ends.
\<close>

datatype fault = QueryFails err | ScanFails err | RowsErr err

text \<open>
  The state of the database behind \<^verbatim>\<open>StoreImpl\<close>: the tables as lists of rows,
  the \<^verbatim>\<open>BIGSERIAL\<close> counters, and the fault (if any) the driver reports.
\<close>

record pg =
  content_tbl :: "Content list"
  content_seq :: int
  source_ids :: "int list"
  jobs_tbl :: "BackgroundJob list"
  jobs_seq :: int
  fault :: "fault option"

subsection \<open>GetContentsByIDs\<close>

text \<open>\<^verbatim>\<open>SELECT ... FROM content WHERE id = ANY($1)\<close>: the rows, or the query error.\<close>

definition query_contents_by_ids :: "pg \<Rightarrow> int list \<Rightarrow> err + Content list" where
  "query_contents_by_ids db ids =
     (case fault db of
        Some (QueryFails e) \<Rightarrow> Inl e
      | _ \<Rightarrow> Inr (filter (\<lambda>c. ID c \<in> set ids) (content_tbl db)))"

text \<open>The \<^verbatim>\<open>rows.Next()\<close> loop: scan each row and store it under its id.\<close>

fun scan_rows :: "fault option \<Rightarrow> Content list \<Rightarrow> (int \<rightharpoonup> Content) \<Rightarrow> err + (int \<rightharpoonup> Content)" where
  "scan_rows flt [] contentsMap = Inr contentsMap"
| "scan_rows flt (content # rows) contentsMap =
     (case flt of
        Some (ScanFails e) \<Rightarrow> Inl (Wrapf ''failed scanning content row: %w'' [] e)
      | _ \<Rightarrow> scan_rows flt rows (contentsMap(ID content \<mapsto> content)))"

definition GetContentsByIDs :: "pg \<Rightarrow> int list \<Rightarrow> err + Content option list" where
  "GetContentsByIDs db ids =
     (if length ids = 0 then Inr []
      else case query_contents_by_ids db ids of
             Inl e \<Rightarrow> Inl (Wrapf ''failed to query contents by IDs: %w'' [] e)
           | Inr rows \<Rightarrow>
              (case scan_rows (fault db) rows Map.empty of
                 Inl e \<Rightarrow> Inl e
               | Inr contentsMap \<Rightarrow>
                  (case fault db of
                     Some (RowsErr e) \<Rightarrow> Inl (Wrapf ''error iterating content rows: %w'' [] e)
                   | _ \<Rightarrow> Inr (map (\<lambda>id. contentsMap id) ids))))"

subsection \<open>RecordJobEnqueue\<close>

text \<open>
  \<^verbatim>\<open>INSERT INTO background_jobs ... ON CONFLICT (job_id) DO NOTHING RETURNING id\<close>
  followed by \<^verbatim>\<open>Scan(&insertedID)\<close>: on a conflict no row comes back and the scan
  reports \<^verbatim>\<open>pgx.ErrNoRows\<close>. The sequence value is drawn before the conflict is seen.
\<close>

definition insert_job_on_conflict_do_nothing :: "pg \<Rightarrow> BackgroundJob \<Rightarrow> (err + int) \<times> pg" where
  "insert_job_on_conflict_do_nothing db row =
     (case fault db of
        Some (QueryFails e) \<Rightarrow> (Inl e, db)
      | Some (ScanFails e) \<Rightarrow> (Inl e, db)
      | Some (RowsErr e) \<Rightarrow> (Inl e, db)
      | None \<Rightarrow>
         (if bj_job_id row \<in> set (map bj_job_id (jobs_tbl db))
          then (Inl PgxErrNoRows, db\<lparr>jobs_seq := jobs_seq db + 1\<rparr>)
          else (Inr (jobs_seq db),
                db\<lparr>jobs_tbl := jobs_tbl db @ [row\<lparr>bj_id := jobs_seq db\<rparr>],
                   jobs_seq := jobs_seq db + 1\<rparr>)))"

text \<open>\<^verbatim>\<open>RecordJobEnqueue\<close>; \<open>now\<close> is \<^verbatim>\<open>time.Now()\<close>, \<open>None\<close> is the nil error.\<close>

definition RecordJobEnqueue :: "int \<Rightarrow> pg \<Rightarrow> JobRecordParams \<Rightarrow> err option \<times> pg" where
  "RecordJobEnqueue now db params =
     (let payloadJSON = (case Payload params of Some p \<Rightarrow> p | None \<Rightarrow> ''{}'');
          relatedID = (if RelatedEntityID params \<noteq> 0 then Some (RelatedEntityID params) else None);
          row = \<lparr>bj_id = 0, bj_job_id = JobID params, bj_task_type = TaskType params,
                 bj_payload = payloadJSON, bj_queue = Queue params, bj_status = Status params,
                 bj_related_entity_type = RelatedEntityType params,
                 bj_related_entity_id = relatedID, bj_created_at = now, bj_updated_at = now\<rparr>
      in case insert_job_on_conflict_do_nothing db row of
           (Inl e, db') \<Rightarrow>
             (if errors_Is e PgxErrNoRows then (None, db')
              else (Some (Wrapf ''failed to record job enqueue event for JobID %s: %w''
                            [S (JobID params)] e), db'))
         | (Inr insertedID, db') \<Rightarrow> (None, db'))"

subsection \<open>Content deduplication\<close>

text \<open>\<^verbatim>\<open>calculateHash\<close>; \<open>sha256_hex\<close> is the hexadecimal SHA-256 digest of
  \<^verbatim>\<open>crypto/sha256\<close> and \<^verbatim>\<open>encoding/hex\<close>.\<close>

definition calculateHash :: "(string \<Rightarrow> string) \<Rightarrow> string \<Rightarrow> string" where
  "calculateHash sha256_hex body = sha256_hex body"

text \<open>\<^verbatim>\<open>SELECT ... FROM content WHERE content_hash = $1\<close> and the scan of its first row.\<close>

definition query_row_by_hash :: "pg \<Rightarrow> string \<Rightarrow> err + Content" where
  "query_row_by_hash db hash =
     (case fault db of
        Some (QueryFails e) \<Rightarrow> Inl e
      | flt \<Rightarrow>
         (case filter (\<lambda>c. ContentHash c = hash) (content_tbl db) of
            [] \<Rightarrow> Inl PgxErrNoRows
          | c # cs \<Rightarrow>
             (case flt of Some (ScanFails e) \<Rightarrow> Inl e | Some (RowsErr e) \<Rightarrow> Inl e | _ \<Rightarrow> Inr c)))"

definition FindContentByHash :: "pg \<Rightarrow> string \<Rightarrow> err + Content" where
  "FindContentByHash db hash =
     (case query_row_by_hash db hash of
        Inl e \<Rightarrow>
          (if errors_Is e PgxErrNoRows then Inl ErrNotFound
           else Inl (Wrapf ''failed to find content by hash %s: %w'' [S hash] e))
      | Inr content \<Rightarrow> Inr content)"

text \<open>
  \<^verbatim>\<open>INSERT INTO content (...) VALUES (...) RETURNING id, created_at, updated_at\<close>: the
  unique index on \<^verbatim>\<open>content_hash\<close> answers with SQLSTATE 23505, the foreign key on
  \<^verbatim>\<open>source_id\<close> with 23503; the columns the statement does not name take their
  defaults.
\<close>

definition insert_content :: "int \<Rightarrow> pg \<Rightarrow> Content \<Rightarrow> (err + int \<times> int \<times> int) \<times> pg" where
  "insert_content now db content =
     (case fault db of
        Some (QueryFails e) \<Rightarrow> (Inl e, db)
      | Some (ScanFails e) \<Rightarrow> (Inl e, db)
      | Some (RowsErr e) \<Rightarrow> (Inl e, db)
      | None \<Rightarrow>
         (if ContentHash content \<in> set (map ContentHash (content_tbl db))
          then (Inl (PgError ''23505''), db\<lparr>content_seq := content_seq db + 1\<rparr>)
          else if SourceID content \<notin> set (source_ids db)
          then (Inl (PgError ''23503''), db\<lparr>content_seq := content_seq db + 1\<rparr>)
          else (Inr (content_seq db, now, now),
                db\<lparr>content_tbl := content_tbl db @
                     [content\<lparr>ID := content_seq db, CreatedAt := now, UpdatedAt := now,
                        EmbeddingID := None, IsEmbedded := False, LastAccessedAt := None\<rparr>],
                   content_seq := content_seq db + 1\<rparr>)))"

text \<open>\<^verbatim>\<open>CreateContent\<close>; the content is written through the pointer, so it is returned
  along with the error (\<open>None\<close> is nil).\<close>

definition CreateContent ::
  "(string \<Rightarrow> string) \<Rightarrow> int \<Rightarrow> pg \<Rightarrow> Content \<Rightarrow> err option \<times> Content \<times> pg" where
  "CreateContent sha256_hex now db content =
     (let content = content\<lparr>ContentHash := calculateHash sha256_hex (Body content)\<rparr>;
          content = (if Metadata content = None then content\<lparr>Metadata := Some ''{}''\<rparr> else content)
      in case insert_content now db content of
           (Inl e, db') \<Rightarrow>
             (if errors_As_PgError e = Some ''23503''
              then (Some (Wrapf ''source ID %d does not exist: %w'' [D (SourceID content)]
                            ErrForeignKeyViolation), content, db')
              else if errors_As_PgError e = Some ''23505''
              then (Some (Wrapf
                      ''content with hash %s already exists (use CreateContentIfNotExists): %w''
                      [S (ContentHash content)] ErrDuplicate), content, db')
              else (Some (Wrapf ''failed to insert content: %w'' [] e), content, db'))
         | (Inr (newID, createdAt, updatedAt), db') \<Rightarrow>
             (None, content\<lparr>ID := newID, CreatedAt := createdAt, UpdatedAt := updatedAt\<rparr>, db'))"

text \<open>
  \<^verbatim>\<open>CreateContentIfNotExists\<close>. \<open>others\<close> is what other connections commit between
  the lookup and the insert of this call (the identity when the call runs alone).
\<close>

definition CreateContentIfNotExists ::
  "(string \<Rightarrow> string) \<Rightarrow> int \<Rightarrow> (pg \<Rightarrow> pg) \<Rightarrow> pg \<Rightarrow> Content \<Rightarrow> (err + bool) \<times> Content \<times> pg" where
  "CreateContentIfNotExists sha256_hex now others db content =
     (let content = content\<lparr>ContentHash := calculateHash sha256_hex (Body content)\<rparr>;
          found = FindContentByHash db (ContentHash content)
      in case found of
           Inr existing \<Rightarrow> (Inr True, existing, db)
         | Inl e \<Rightarrow>
            (if \<not> errors_Is e ErrNotFound
             then (Inl (Wrapf ''failed checking for existing content by hash: %w'' [] e), content, db)
             else
               (case CreateContent sha256_hex now (others db) content of
                  (None, content, db') \<Rightarrow> (Inr False, content, db')
                | (Some err, content, db') \<Rightarrow>
                    (if errors_As_PgError err = Some ''23505'' then
                       (case FindContentByHash db' (ContentHash content) of
                          Inl errFetch \<Rightarrow>
                            (Inl (Wrapf
                               ''failed to fetch concurrently inserted content (hash %s): %w''
                               [S (ContentHash content)] errFetch), content, db')
                        | Inr existing \<Rightarrow> (Inr True, existing, db'))
                     else (Inl (Wrapf ''failed to create new content: %w'' [] err), content, db')))))"

section \<open>Strings\<close>

text \<open>
  Go strings are byte strings, and the functions of package \<^verbatim>\<open>strings\<close> that look at
  characters read them as UTF-8. A rune is a Unicode code point.
\<close>

type_synonym rune = nat

definition RuneError :: rune where "RuneError = 0xFFFD"
definition RuneSelf :: nat where "RuneSelf = 0x80"
definition MaxRune :: rune where "MaxRune = 0x10FFFF"

definition byte :: "char \<Rightarrow> nat" where
  "byte c = of_char c"

subsection \<open>Package \<^verbatim>\<open>unicode/utf8\<close>\<close>

text \<open>
  The table \<^verbatim>\<open>first\<close>: the length that a first byte announces (0 for a byte that starts
  no encoding), and the range \<^verbatim>\<open>acceptRanges\<close> that it allows for the second byte.
\<close>

definition first_size :: "nat \<Rightarrow> nat" where
  "first_size s0 =
     (if s0 < 0x80 then 1 else if s0 < 0xC2 then 0 else if s0 < 0xE0 then 2
      else if s0 < 0xF0 then 3 else if s0 < 0xF5 then 4 else 0)"

definition accept_lo :: "nat \<Rightarrow> nat" where
  "accept_lo s0 = (if s0 = 0xE0 then 0xA0 else if s0 = 0xF0 then 0x90 else 0x80)"

definition accept_hi :: "nat \<Rightarrow> nat" where
  "accept_hi s0 = (if s0 = 0xED then 0x9F else if s0 = 0xF4 then 0x8F else 0xBF)"

text \<open>\<^verbatim>\<open>utf8.DecodeRuneInString\<close>: the first rune of the string and its width in bytes;
  a byte that starts no valid encoding is \<open>RuneError\<close> of width 1.\<close>

definition DecodeRuneInString :: "string \<Rightarrow> rune \<times> nat" where
  "DecodeRuneInString s =
     (if length s < 1 then (RuneError, 0)
      else let s0 = byte (s ! 0); sz = first_size s0 in
        if sz = 1 then (s0, 1)
        else if sz = 0 then (RuneError, 1)
        else if length s < sz then (RuneError, 1)
        else let s1 = byte (s ! 1) in
          if s1 < accept_lo s0 \<or> accept_hi s0 < s1 then (RuneError, 1)
          else if sz \<le> 2 then ((s0 mod 32) * 64 + s1 mod 64, 2)
          else let s2 = byte (s ! 2) in
            if s2 < 0x80 \<or> 0xBF < s2 then (RuneError, 1)
            else if sz \<le> 3 then ((s0 mod 16) * 4096 + (s1 mod 64) * 64 + s2 mod 64, 3)
            else let s3 = byte (s ! 3) in
              if s3 < 0x80 \<or> 0xBF < s3 then (RuneError, 1)
              else ((s0 mod 8) * 262144 + (s1 mod 64) * 4096 + (s2 mod 64) * 64 + s3 mod 64, 4))"

text \<open>\<^verbatim>\<open>utf8.RuneStart\<close>: the byte is not a continuation byte.\<close>

definition RuneStart :: "nat \<Rightarrow> bool" where
  "RuneStart b = (b div 64 \<noteq> 2)"

text \<open>
  \<^verbatim>\<open>utf8.DecodeLastRuneInString\<close>: the last rune of the string and its width. Its loop
  goes back from the last byte but one, over at most three bytes, to a byte that can start
  a rune, and stops one byte further when there is none; the rune decoded from there must
  end where the string ends.
\<close>

definition last_start :: "string \<Rightarrow> nat" where
  "last_start s =
     (let n = length s in
      if 2 \<le> n \<and> RuneStart (byte (s ! (n - 2))) then n - 2
      else if 3 \<le> n \<and> RuneStart (byte (s ! (n - 3))) then n - 3
      else if 4 \<le> n \<and> RuneStart (byte (s ! (n - 4))) then n - 4
      else n - 5)"

definition DecodeLastRuneInString :: "string \<Rightarrow> rune \<times> nat" where
  "DecodeLastRuneInString s =
     (let n = length s in
      if n = 0 then (RuneError, 0)
      else let r = byte (s ! (n - 1)) in
        if r < RuneSelf then (r, 1)
        else let start = last_start s;
                 (r, size) = DecodeRuneInString (drop start s)
             in if start + size \<noteq> n then (RuneError, 1) else (r, size))"

text \<open>\<^verbatim>\<open>utf8.AppendRune\<close>: the UTF-8 encoding of a rune; a surrogate or a value beyond
  \<open>MaxRune\<close> is written as \<open>RuneError\<close>.\<close>

definition EncodeRune :: "rune \<Rightarrow> string" where
  "EncodeRune r =
     (if r \<le> 0x7F then [char_of r]
      else if r \<le> 0x7FF then [char_of (0xC0 + r div 64), char_of (0x80 + r mod 64)]
      else if MaxRune < r \<or> (0xD800 \<le> r \<and> r \<le> 0xDFFF) then [CHR 0xEF, CHR 0xBF, CHR 0xBD]
      else if r \<le> 0xFFFF
      then [char_of (0xE0 + r div 4096), char_of (0x80 + (r div 64) mod 64),
            char_of (0x80 + r mod 64)]
      else [char_of (0xF0 + r div 262144), char_of (0x80 + (r div 4096) mod 64),
            char_of (0x80 + (r div 64) mod 64), char_of (0x80 + r mod 64)])"

text \<open>The loop \<^verbatim>\<open>for _, r := range s\<close>: the runes of a string, each with its bytes.\<close>

fun runes :: "string \<Rightarrow> (rune \<times> string) list" where
  "runes [] = []"
| "runes (c # cs) =
     (let (r, size) = DecodeRuneInString (c # cs)
      in (r, c # take (size - 1) cs) # runes (drop (size - 1) cs))"

subsection \<open>Package \<^verbatim>\<open>unicode\<close>\<close>

text \<open>\<^verbatim>\<open>unicode.IsSpace\<close>: in Latin-1 the characters tab, line feed, vertical tab, form
  feed, carriage return, space, U+0085 and U+00A0; beyond, the table \<^verbatim>\<open>White_Space\<close>.\<close>

definition IsSpace :: "rune \<Rightarrow> bool" where
  "IsSpace r =
     (if r \<le> 0xFF then r \<in> set [0x09, 0x0A, 0x0B, 0x0C, 0x0D, 0x20, 0x85, 0xA0]
      else r = 0x1680 \<or> (0x2000 \<le> r \<and> r \<le> 0x200A) \<or> r = 0x2028 \<or> r = 0x2029 \<or>
           r = 0x202F \<or> r = 0x205F \<or> r = 0x3000)"

text \<open>
  The case tables of package \<^verbatim>\<open>unicode\<close> are not part of the repository: the functions
  \<^verbatim>\<open>unicode.ToUpper\<close> and \<^verbatim>\<open>unicode.ToLower\<close> are parameters of the functions that use
  them. They are consulted only for a string that has a byte outside ASCII.
\<close>

subsection \<open>Package \<^verbatim>\<open>strings\<close>\<close>

text \<open>
  \<^verbatim>\<open>strings.TrimSpace\<close> removes the white-space runes at both ends: at the front with
  \<^verbatim>\<open>DecodeRuneInString\<close>, at the back with \<^verbatim>\<open>DecodeLastRuneInString\<close> (\<open>trim_right\<close>
  takes and returns the string reversed). The loops over ASCII bytes with which the
  library starts give the same string.
\<close>

fun trim_left :: "string \<Rightarrow> string" where
  "trim_left [] = []"
| "trim_left (c # cs) =
     (let (r, size) = DecodeRuneInString (c # cs)
      in if IsSpace r then trim_left (drop (size - 1) cs) else c # cs)"

fun trim_right :: "string \<Rightarrow> string" where
  "trim_right [] = []"
| "trim_right (c # cs) =
     (let (r, size) = DecodeLastRuneInString (rev (c # cs))
      in if IsSpace r then trim_right (drop (size - 1) cs) else c # cs)"

definition TrimSpace :: "string \<Rightarrow> string" where
  "TrimSpace s = rev (trim_right (rev (trim_left s)))"

text \<open>\<^verbatim>\<open>strings.Fields\<close> splits around the runs of white-space runes; \<open>w\<close> is the field
  being read.\<close>

fun fields_from :: "string \<Rightarrow> (rune \<times> string) list \<Rightarrow> string list" where
  "fields_from w [] = (if w = [] then [] else [w])"
| "fields_from w ((r, bs) # rs) =
     (if IsSpace r then (if w = [] then fields_from [] rs else w # fields_from [] rs)
      else fields_from (w @ bs) rs)"

definition Fields :: "string \<Rightarrow> string list" where
  "Fields s = fields_from [] (runes s)"

fun Join :: "string list \<Rightarrow> string \<Rightarrow> string" where
  "Join [] sep = []"
| "Join [x] sep = x"
| "Join (x # y # zs) sep = x @ sep @ Join (y # zs) sep"

definition HasPrefix :: "string \<Rightarrow> string \<Rightarrow> bool" where
  "HasPrefix s p = (take (length p) s = p)"

definition HasSuffix :: "string \<Rightarrow> string \<Rightarrow> bool" where
  "HasSuffix s suf = (length suf \<le> length s \<and> drop (length s - length suf) s = suf)"

fun Contains :: "string \<Rightarrow> string \<Rightarrow> bool" where
  "Contains [] sub = (sub = [])"
| "Contains (c # cs) sub = (HasPrefix (c # cs) sub \<or> Contains cs sub)"

text \<open>\<^verbatim>\<open>strings.Split(s, sep)\<close> for a non-empty separator; \<open>w\<close> is the piece being read.\<close>

fun split_from :: "string \<Rightarrow> string \<Rightarrow> string \<Rightarrow> string list" where
  "split_from sep w [] = [w]"
| "split_from sep w (c # cs) =
     (if HasPrefix (c # cs) sep then w # split_from sep [] (drop (length sep - 1) cs)
      else split_from sep (w @ [c]) cs)"

definition Split :: "string \<Rightarrow> string \<Rightarrow> string list" where
  "Split s sep = (if sep = [] then map (\<lambda>c. [c]) s else split_from sep [] s)"

text \<open>\<^verbatim>\<open>strings.Map\<close>: every rune is replaced by the encoding of its image; a byte that
  starts no valid encoding is read as \<open>RuneError\<close>.\<close>

definition Map :: "(rune \<Rightarrow> rune) \<Rightarrow> string \<Rightarrow> string" where
  "Map mapping s = concat (map (\<lambda>(r, bs). EncodeRune (mapping r)) (runes s))"

definition isASCII :: "string \<Rightarrow> bool" where
  "isASCII s = list_all (\<lambda>c. byte c < RuneSelf) s"

text \<open>
  \<^verbatim>\<open>strings.ToLower\<close> and \<^verbatim>\<open>strings.ToUpper\<close>: a string of ASCII bytes is mapped byte
  by byte, any other string rune by rune with the case table of package \<^verbatim>\<open>unicode\<close>.
\<close>

definition ToLower :: "(rune \<Rightarrow> rune) \<Rightarrow> string \<Rightarrow> string" where
  "ToLower unicode_ToLower s =
     (if isASCII s
      then map (\<lambda>c. if byte CHR ''A'' \<le> byte c \<and> byte c \<le> byte CHR ''Z''
                     then char_of (byte c + (byte CHR ''a'' - byte CHR ''A'')) else c) s
      else Map unicode_ToLower s)"

definition ToUpper :: "(rune \<Rightarrow> rune) \<Rightarrow> string \<Rightarrow> string" where
  "ToUpper unicode_ToUpper s =
     (if isASCII s
      then map (\<lambda>c. if byte CHR ''a'' \<le> byte c \<and> byte c \<le> byte CHR ''z''
                     then char_of (byte c - (byte CHR ''a'' - byte CHR ''A'')) else c) s
      else Map unicode_ToUpper s)"

text \<open>The slice \<^verbatim>\<open>s[a:b]\<close>.\<close>

definition slice :: "'a list \<Rightarrow> nat \<Rightarrow> nat \<Rightarrow> 'a list" where
  "slice s a b = take (b - a) (drop a s)"

section \<open>Chunking\<close>

definition DefaultMaxTokens :: int where "DefaultMaxTokens = 200"
definition DefaultOverlap :: int where "DefaultOverlap = 50"

datatype meta_value = MInt int | MStr string | MStrs "string list"

text \<open>\<^verbatim>\<open>chunking.Chunk\<close>: the text and the metadata map.\<close>

record Chunk =
  Text :: string
  Meta :: "string \<rightharpoonup> meta_value"

text \<open>\<^verbatim>\<open>html.Node\<close> of \<^verbatim>\<open>golang.org/x/net/html\<close>: type, data and children.\<close>

datatype node_type = ErrorNode | TextNode | DocumentNode | ElementNode | CommentNode | DoctypeNode

datatype html_node = Node node_type string "html_node list"

text \<open>
  The libraries the chunkers call: the sentence tokenizer of
  \<^verbatim>\<open>github.com/neurosnap/sentences\<close> (\<open>None\<close> when it could not be created; its
  \<^verbatim>\<open>Tokenize\<close> is taken to return its sentences), \<^verbatim>\<open>html.Parse\<close>,
  \<^verbatim>\<open>json.Unmarshal\<close> followed by the lookup of a string field (\<open>None\<close> when the
  document does not decode or has no such string field), and the lower-case table
  \<^verbatim>\<open>unicode.ToLower\<close>.
\<close>

record libs =
  tokenizer :: "(string \<Rightarrow> string list) option"
  html_Parse :: "string \<Rightarrow> err + html_node"
  json_string_field :: "string \<Rightarrow> string \<Rightarrow> string option"
  unicode_ToLower :: "rune \<Rightarrow> rune"

definition estimateTokens :: "string \<Rightarrow> int" where
  "estimateTokens text = int (length (Fields text))"

text \<open>The backwards loop of \<^verbatim>\<open>calculateSentenceOverlap\<close> over the sentences, last first.\<close>

fun overlap_sentences :: "int \<Rightarrow> string list \<Rightarrow> string list \<Rightarrow> int \<Rightarrow> string list" where
  "overlap_sentences overlapTokens [] overlapSentences accumulatedTokens = overlapSentences"
| "overlap_sentences overlapTokens (s # sents) overlapSentences accumulatedTokens =
     (let sentenceText = TrimSpace s in
      if sentenceText = [] then overlap_sentences overlapTokens sents overlapSentences accumulatedTokens
      else let sentenceTokens = estimateTokens sentenceText in
        if accumulatedTokens + sentenceTokens \<le> overlapTokens
        then overlap_sentences overlapTokens sents (sentenceText # overlapSentences)
               (accumulatedTokens + sentenceTokens)
        else if length overlapSentences = 0 then sentenceText # overlapSentences
        else overlapSentences)"

definition calculateSentenceOverlap :: "libs \<Rightarrow> string \<Rightarrow> int \<Rightarrow> string" where
  "calculateSentenceOverlap L text overlapTokens =
     (if overlapTokens \<le> 0 \<or> text = [] then []
      else case tokenizer L of
        None \<Rightarrow>
          (let words = Fields text;
               overlapTokens = (if overlapTokens > int (length words) then int (length words)
                                else overlapTokens)
           in if length words = 0 \<or> overlapTokens \<le> 0 then []
              else Join (drop (length words - nat overlapTokens) words) '' '' @ '' '')
      | Some Tokenize \<Rightarrow>
          (let sents = Tokenize text in
           if length sents = 0 then []
           else let overlapSentences = overlap_sentences overlapTokens (rev sents) [] 0 in
             if length overlapSentences = 0 then []
             else Join overlapSentences '' '' @ '' ''))"

text \<open>
  The defaults every chunker applies to its parameters before it splits: the three
  \<^verbatim>\<open>if\<close> statements at the head of \<^verbatim>\<open>FallbackChunker.Chunk\<close>,
  \<^verbatim>\<open>MarkdownChunker.Chunk\<close> and \<^verbatim>\<open>htmlChunker.Chunk\<close>.
\<close>

definition chunk_params :: "int \<Rightarrow> int \<Rightarrow> int \<times> int" where
  "chunk_params maxTokens overlap =
     (let maxTokens = (if maxTokens \<le> 0 then DefaultMaxTokens else maxTokens);
          overlap = (if overlap < 0 then DefaultOverlap else overlap);
          overlap = (if overlap \<ge> maxTokens then maxTokens - 1 else overlap)
      in (maxTokens, overlap))"

text \<open>The word split of a line that is too long: \<^verbatim>\<open>words[startIndex:endIndex]\<close> in turn.\<close>

function word_chunks :: "int \<Rightarrow> string list \<Rightarrow> nat \<Rightarrow> string list" where
  "word_chunks maxTokens words startIndex =
     (if startIndex < length words \<and> 0 < maxTokens then
        (let endIndex = (if int startIndex + maxTokens > int (length words) then length words
                         else nat (int startIndex + maxTokens))
         in Join (slice words startIndex endIndex) '' '' # word_chunks maxTokens words endIndex)
      else [])"
  by pat_completeness auto
termination
  by (relation "measure (\<lambda>(maxTokens, words, startIndex). length words - startIndex)") auto

text \<open>The line loop and the paragraph loop that build \<^verbatim>\<open>intermediateChunks\<close>.\<close>

fun line_pieces :: "int \<Rightarrow> string list \<Rightarrow> string list" where
  "line_pieces maxTokens [] = []"
| "line_pieces maxTokens (l # lines) =
     (let line = TrimSpace l in
      if line = [] then line_pieces maxTokens lines
      else if estimateTokens line \<le> maxTokens then line # line_pieces maxTokens lines
      else word_chunks maxTokens (Fields line) 0 @ line_pieces maxTokens lines)"

fun paragraph_pieces :: "int \<Rightarrow> string list \<Rightarrow> string list" where
  "paragraph_pieces maxTokens [] = []"
| "paragraph_pieces maxTokens (p # paragraphs) =
     (let para = TrimSpace p in
      if para = [] then paragraph_pieces maxTokens paragraphs
      else if estimateTokens para \<le> maxTokens then para # paragraph_pieces maxTokens paragraphs
      else line_pieces maxTokens (Split para [CHR 0x0A]) @ paragraph_pieces maxTokens paragraphs)"

text \<open>
  The loop that joins the pieces into chunks and inserts the overlap. \<open>meta\<close> builds the
  metadata of a chunk from its index and the warning it carries, if any; the state is
  \<^verbatim>\<open>currentChunk\<close>, \<^verbatim>\<open>currentTokens\<close>, \<^verbatim>\<open>chunkIndex\<close> and \<^verbatim>\<open>finalChunks\<close>.
\<close>

fun join_pieces ::
  "libs \<Rightarrow> int \<Rightarrow> int \<Rightarrow> (int \<Rightarrow> bool \<Rightarrow> string \<rightharpoonup> meta_value) \<Rightarrow> string list \<Rightarrow>
   string \<times> int \<times> int \<times> Chunk list \<Rightarrow> string \<times> int \<times> int \<times> Chunk list" where
  "join_pieces L maxTokens overlap meta [] st = st"
| "join_pieces L maxTokens overlap meta (piece # pieces)
       (currentChunk, currentTokens, chunkIndex, finalChunks) =
     (let pieceTokens = estimateTokens piece;
          (currentChunk, currentTokens, chunkIndex, finalChunks) =
            (if currentTokens > 0 \<and> currentTokens + pieceTokens > maxTokens then
               (let finalizedChunkText = TrimSpace currentChunk;
                    finalChunks = finalChunks @
                      [\<lparr>Text = finalizedChunkText, Meta = meta chunkIndex False\<rparr>];
                    chunkIndex = chunkIndex + 1;
                    overlapText = calculateSentenceOverlap L finalizedChunkText overlap;
                    currentChunk = overlapText;
                    currentTokens = estimateTokens overlapText
                in if currentTokens + pieceTokens > maxTokens \<and> currentTokens > 0
                   then ([], 0, chunkIndex + 1,
                         finalChunks @ [\<lparr>Text = TrimSpace currentChunk, Meta = meta chunkIndex True\<rparr>])
                   else (currentChunk, currentTokens, chunkIndex, finalChunks))
             else (currentChunk, currentTokens, chunkIndex, finalChunks));
          currentChunk = (if currentChunk \<noteq> [] \<and> \<not> HasSuffix currentChunk '' ''
                          then currentChunk @ '' '' else currentChunk);
          currentChunk = currentChunk @ piece;
          currentTokens = currentTokens + pieceTokens
      in if pieces = [] \<and> TrimSpace currentChunk \<noteq> []
         then join_pieces L maxTokens overlap meta pieces
                (currentChunk, currentTokens, chunkIndex + 1,
                 finalChunks @ [\<lparr>Text = TrimSpace currentChunk, Meta = meta chunkIndex False\<rparr>])
         else join_pieces L maxTokens overlap meta pieces
                (currentChunk, currentTokens, chunkIndex, finalChunks))"

subsection \<open>The fallback text chunker\<close>

definition fallback_meta :: "int \<Rightarrow> bool \<Rightarrow> string \<rightharpoonup> meta_value" where
  "fallback_meta chunkIndex warning =
     (if warning
      then [''chunk_index'' \<mapsto> MInt chunkIndex,
            ''warning'' \<mapsto> MStr ''Overlap truncated due to large piece following'']
      else [''chunk_index'' \<mapsto> MInt chunkIndex])"

definition FallbackChunker_Chunk :: "libs \<Rightarrow> Content \<Rightarrow> int \<Rightarrow> int \<Rightarrow> err + Chunk list" where
  "FallbackChunker_Chunk L content maxTokens overlap =
     (let text = TrimSpace (Body content) in
      if text = [] then Inr []
      else let (maxTokens, overlap) = chunk_params maxTokens overlap;
               paragraphs = Split text [CHR 0x0A, CHR 0x0A];
               intermediateChunks = paragraph_pieces maxTokens paragraphs
           in if length intermediateChunks = 0 then Inr []
              else (case join_pieces L maxTokens overlap fallback_meta intermediateChunks ([], 0, 0, []) of
                      (currentChunk, currentTokens, chunkIndex, finalChunks) \<Rightarrow> Inr finalChunks))"

subsection \<open>The markdown chunker\<close>

text \<open>White space of the regular expression class \<^verbatim>\<open>\s\<close>: tab, line feed, form feed,
  carriage return and space.\<close>

definition isReSpace :: "char \<Rightarrow> bool" where
  "isReSpace c = (c \<in> set [CHR 0x09, CHR 0x0A, CHR 0x0C, CHR 0x0D, CHR 0x20])"

text \<open>
  A match of \<^verbatim>\<open>#{2,}\s+(.*)$\<close> (multi-line mode) at the head of \<open>s\<close>: the length of
  the match and the offsets of the group. The hashes and the white space are taken
  greedily; the group runs to the end of the line, so no shorter choice can match
  where the greedy one fails.
\<close>

definition match_heading :: "string \<Rightarrow> (nat \<times> nat \<times> nat) option" where
  "match_heading s =
     (let hashes = length (takeWhile (\<lambda>c. c = CHR ''#'') s);
          spaces = length (takeWhile isReSpace (drop hashes s));
          title = length (takeWhile (\<lambda>c. c \<noteq> CHR 0x0A) (drop (hashes + spaces) s))
      in if hashes < 2 \<or> spaces < 1 then None
         else Some (hashes + spaces + title, hashes + spaces, hashes + spaces + title))"

text \<open>
  \<^verbatim>\<open>re.FindAllStringSubmatchIndex(text, -1)\<close> for \<^verbatim>\<open>(?m)^#{2,}\s+(.*)$\<close>: the
  leftmost matches, none overlapping, each as start, end, group start and group end.
  \<open>pos\<close> is the offset of \<open>s\<close> in the text and \<open>bol\<close> tells whether a line begins there.
\<close>

fun find_headings :: "nat \<Rightarrow> bool \<Rightarrow> string \<Rightarrow> (nat \<times> nat \<times> nat \<times> nat) list" where
  "find_headings pos bol [] = []"
| "find_headings pos bol (c # cs) =
     (case (if bol then match_heading (c # cs) else None) of
        Some (len, g0, g1) \<Rightarrow>
          (pos, pos + len, pos + g0, pos + g1) #
            find_headings (pos + len) (last (take len (c # cs)) = CHR 0x0A) (drop (len - 1) cs)
      | None \<Rightarrow> find_headings (pos + 1) (c = CHR 0x0A) cs)"

definition markdown_meta :: "string \<Rightarrow> int \<Rightarrow> bool \<Rightarrow> string \<rightharpoonup> meta_value" where
  "markdown_meta heading chunkIndex warning =
     (if warning
      then [''chunk_index'' \<mapsto> MInt chunkIndex, ''source_heading'' \<mapsto> MStr heading,
            ''warning'' \<mapsto> MStr ''Overlap truncated'']
      else [''chunk_index'' \<mapsto> MInt chunkIndex, ''source_heading'' \<mapsto> MStr heading])"

text \<open>The closure \<^verbatim>\<open>processSection\<close>; it updates \<^verbatim>\<open>chunkIndex\<close> and \<^verbatim>\<open>finalChunks\<close>.\<close>

definition processSection ::
  "libs \<Rightarrow> int \<Rightarrow> int \<Rightarrow> string \<Rightarrow> string \<Rightarrow> int \<times> Chunk list \<Rightarrow> int \<times> Chunk list" where
  "processSection L maxTokens overlap sectionText heading st =
     (let sectionText = TrimSpace sectionText in
      if sectionText = [] then st
      else let paragraphs = Split sectionText [CHR 0x0A, CHR 0x0A];
               intermediateChunks = paragraph_pieces maxTokens paragraphs
           in (case join_pieces L maxTokens overlap (markdown_meta heading) intermediateChunks
                      ([], 0, fst st, snd st) of
                 (currentChunk, currentTokens, chunkIndex, finalChunks) \<Rightarrow> (chunkIndex, finalChunks)))"

text \<open>The loop over the matches: the section from the end of a heading line to the start
  of the next heading (or the end of the text), under that heading's text.\<close>

fun heading_sections ::
  "libs \<Rightarrow> int \<Rightarrow> int \<Rightarrow> string \<Rightarrow> (nat \<times> nat \<times> nat \<times> nat) list \<Rightarrow> int \<times> Chunk list \<Rightarrow>
   int \<times> Chunk list" where
  "heading_sections L maxTokens overlap text [] st = st"
| "heading_sections L maxTokens overlap text ((m0, m1, g0, g1) # matches) st =
     (let start = m1;
          headingText = TrimSpace (slice text g0 g1);
          end = (case matches of (n0, n1, h0, h1) # rest \<Rightarrow> n0 | [] \<Rightarrow> length text)
      in heading_sections L maxTokens overlap text matches
           (processSection L maxTokens overlap (slice text start end) headingText st))"

definition MarkdownChunker_Chunk :: "libs \<Rightarrow> Content \<Rightarrow> int \<Rightarrow> int \<Rightarrow> err + Chunk list" where
  "MarkdownChunker_Chunk L content maxTokens overlap =
     (let text = TrimSpace (Body content) in
      if text = [] then Inr []
      else let (maxTokens, overlap) = chunk_params maxTokens overlap;
               matches = find_headings 0 True text
           in (case matches of
                 [] \<Rightarrow> Inr (snd (processSection L maxTokens overlap text [] (0, [])))
               | (m0, m1, g0, g1) # rest \<Rightarrow>
                   Inr (snd (heading_sections L maxTokens overlap text matches
                          (processSection L maxTokens overlap (slice text 0 m0) [] (0, []))))))"

subsection \<open>The HTML chunker\<close>

text \<open>\<^verbatim>\<open>simpleChunkText\<close>: windows of \<^verbatim>\<open>maxTokens\<close> words that advance by
  \<^verbatim>\<open>maxTokens - overlap\<close>, at least by one word.\<close>

function simple_chunks ::
  "string list \<Rightarrow> int \<Rightarrow> int \<Rightarrow> string \<Rightarrow> int \<Rightarrow> int \<Rightarrow> Chunk list \<Rightarrow> Chunk list" where
  "simple_chunks words maxTokens overlap parserType startIndex chunkIndex chunks =
     (let totalWords = int (length words) in
      if startIndex < totalWords then
        (let endIndex = startIndex + maxTokens;
             endIndex = (if endIndex > totalWords then totalWords else endIndex);
             endIndex = (if endIndex \<le> startIndex then startIndex + 1 else endIndex);
             chunkText = Join (slice words (nat startIndex) (nat endIndex)) '' '';
             chunks = chunks @
               [\<lparr>Text = chunkText,
                 Meta = [''parser'' \<mapsto> MStr parserType, ''chunk_index'' \<mapsto> MInt chunkIndex]\<rparr>];
             nextStart = startIndex + maxTokens - overlap;
             nextStart = (if nextStart \<le> startIndex then startIndex + 1 else nextStart)
         in if nextStart \<ge> totalWords then chunks
            else simple_chunks words maxTokens overlap parserType nextStart (chunkIndex + 1) chunks)
      else chunks)"
  by pat_completeness auto
termination
  by (relation "measure (\<lambda>(words, maxTokens, overlap, parserType, startIndex, chunkIndex, chunks).
          nat (int (length words) - startIndex))")
     (auto simp: Let_def split: if_splits)

definition simpleChunkText :: "string \<Rightarrow> int \<Rightarrow> int \<Rightarrow> string \<Rightarrow> Chunk list" where
  "simpleChunkText text maxTokens overlap parserType =
     (let words = Fields text in
      if length words = 0 then []
      else simple_chunks words maxTokens overlap parserType 0 0 [])"

definition getOverlap :: "string \<Rightarrow> int \<Rightarrow> string" where
  "getOverlap text overlap =
     (let trimmedText = TrimSpace text in
      if overlap \<le> 0 \<or> trimmedText = [] then []
      else let words = Fields trimmedText in
        if int (length words) \<le> overlap then trimmedText
        else Join (drop (length words - nat overlap) words) '' '')"

definition ignoreTags :: "string list" where
  "ignoreTags = [''script'', ''style'', ''head'', ''nav'', ''footer'', ''aside'', ''form'', ''noscript'']"

definition blockTags :: "string list" where
  "blockTags = [''address'', ''article'', ''aside'', ''blockquote'', ''canvas'', ''dd'', ''div'',
     ''dl'', ''dt'', ''fieldset'', ''figcaption'', ''figure'', ''footer'', ''form'', ''h1'', ''h2'',
     ''h3'', ''h4'', ''h5'', ''h6'', ''header'', ''hr'', ''li'', ''main'', ''nav'', ''noscript'', ''ol'',
     ''p'', ''pre'', ''section'', ''table'', ''tfoot'', ''ul'', ''video'']"

fun isBlockElement :: "html_node \<Rightarrow> bool" where
  "isBlockElement (Node ty data children) = (ty = ElementNode \<and> data \<in> set blockTags)"

text \<open>The variables the closure \<^verbatim>\<open>traverse\<close> shares with \<^verbatim>\<open>htmlChunker.Chunk\<close>.\<close>

record tstate =
  chunks :: "Chunk list"
  currentChunk :: string
  currentTokens :: int
  chunkIndex :: int
  isBlock :: bool
  currentBlockTags :: "string list"

text \<open>What \<^verbatim>\<open>traverse\<close> does with the data of a text node.\<close>

definition text_node :: "int \<Rightarrow> int \<Rightarrow> string \<Rightarrow> tstate \<Rightarrow> tstate" where
  "text_node maxTokens overlap data st =
     (let text = TrimSpace data in
      if text = [] then st
      else let wordCount = int (length (Fields text));
               st = (if currentTokens st + wordCount > maxTokens \<and> length (currentChunk st) > 0 then
                       (let overlappedText = getOverlap (currentChunk st) overlap in
                        st\<lparr>chunks := chunks st @
                              [\<lparr>Text = TrimSpace (currentChunk st),
                                Meta = [''chunk_index'' \<mapsto> MInt (chunkIndex st),
                                        ''source_tags'' \<mapsto> MStrs (currentBlockTags st)]\<rparr>],
                            chunkIndex := chunkIndex st + 1,
                            currentChunk :=
                              (if overlappedText \<noteq> [] \<and> \<not> HasSuffix overlappedText '' '' \<and>
                                  \<not> HasSuffix overlappedText [CHR 0x0A]
                               then overlappedText @ '' '' else overlappedText),
                            currentTokens := int (length (Fields overlappedText))\<rparr>)
                     else st);
               st = (if length (currentChunk st) > 0 \<and> \<not> HasSuffix (currentChunk st) '' '' \<and>
                        \<not> HasSuffix (currentChunk st) [CHR 0x0A]
                     then st\<lparr>currentChunk := currentChunk st @ '' ''\<rparr> else st)
           in st\<lparr>currentChunk := currentChunk st @ text,
                 currentTokens := currentTokens st + wordCount\<rparr>)"

text \<open>The part of \<^verbatim>\<open>traverse\<close> before the children are visited, and the part after.\<close>

definition enter_node :: "int \<Rightarrow> int \<Rightarrow> html_node \<Rightarrow> tstate \<Rightarrow> tstate" where
  "enter_node maxTokens overlap n st =
     (case n of Node ty data children \<Rightarrow>
       (let st = (if isBlock st \<and> length (currentChunk st) > 0 \<and>
                     \<not> HasSuffix (currentChunk st) [CHR 0x0A, CHR 0x0A]
                  then st\<lparr>currentChunk := currentChunk st @ [CHR 0x0A, CHR 0x0A]\<rparr> else st);
            st = (if ty = TextNode then text_node maxTokens overlap data st else st);
            st = st\<lparr>isBlock := isBlockElement n\<rparr>
        in if isBlock st then st\<lparr>currentBlockTags := currentBlockTags st @ [data]\<rparr> else st))"

definition leave_node :: "bool \<Rightarrow> html_node option \<Rightarrow> tstate \<Rightarrow> tstate" where
  "leave_node pushedTag nextSibling st =
     (let st = (if isBlock st \<and> length (currentChunk st) > 0 \<and>
                   \<not> HasSuffix (currentChunk st) [CHR 0x0A, CHR 0x0A] then
                  (let isNextBlock = (case nextSibling of Some s \<Rightarrow> isBlockElement s | None \<Rightarrow> False)
                   in if \<not> isNextBlock \<or> nextSibling = None
                      then st\<lparr>currentChunk := currentChunk st @ [CHR 0x0A, CHR 0x0A]\<rparr> else st)
                else st)
      in if pushedTag \<and> length (currentBlockTags st) > 0
         then st\<lparr>currentBlockTags := butlast (currentBlockTags st)\<rparr> else st)"

text \<open>\<^verbatim>\<open>traverse\<close> on a node and its next sibling, and its loop over the children.\<close>

fun traverse :: "int \<Rightarrow> int \<Rightarrow> html_node \<Rightarrow> html_node option \<Rightarrow> tstate \<Rightarrow> tstate"
  and traverse_children :: "int \<Rightarrow> int \<Rightarrow> html_node list \<Rightarrow> tstate \<Rightarrow> tstate" where
  "traverse maxTokens overlap (Node ty data children) nextSibling st =
     (if ty = ElementNode \<and> data \<in> set ignoreTags then st
      else leave_node (isBlockElement (Node ty data children)) nextSibling
             (traverse_children maxTokens overlap children
               (enter_node maxTokens overlap (Node ty data children) st)))"
| "traverse_children maxTokens overlap [] st = st"
| "traverse_children maxTokens overlap (child # siblings) st =
     traverse_children maxTokens overlap siblings
       (traverse maxTokens overlap child
          (case siblings of [] \<Rightarrow> None | s # ss \<Rightarrow> Some s) st)"

text \<open>
  \<^verbatim>\<open>htmlChunker.Chunk\<close>, statement by statement: the closure is defined, the last
  chunk is appended and the result is tested for emptiness before the traversal is
  started on the last line but one.
\<close>

definition htmlChunker_Chunk :: "libs \<Rightarrow> Content \<Rightarrow> int \<Rightarrow> int \<Rightarrow> err + Chunk list" where
  "htmlChunker_Chunk L content maxTokens overlap =
     (let body = TrimSpace (Body content) in
      if body = [] then Inr []
      else let (maxTokens, overlap) = chunk_params maxTokens overlap in
        case html_Parse L body of
          Inl e \<Rightarrow> Inr (simpleChunkText (Body content) maxTokens overlap ''html-fallback'')
        | Inr doc \<Rightarrow>
           (let st = \<lparr>chunks = [], currentChunk = [], currentTokens = 0, chunkIndex = 0,
                      isBlock = False, currentBlockTags = []\<rparr>;
                st = (if length (currentChunk st) > 0
                      then st\<lparr>chunks := chunks st @
                              [\<lparr>Text = TrimSpace (currentChunk st),
                                Meta = [''chunk_index'' \<mapsto> MInt (chunkIndex st),
                                        ''source_tags'' \<mapsto> MStrs (currentBlockTags st)]\<rparr>]\<rparr>
                      else st)
            in if length (chunks st) = 0 \<and> body \<noteq> []
               then Inr (simpleChunkText (Body content) maxTokens overlap ''html-fallback'')
               else Inr (chunks (traverse maxTokens overlap doc None st))))"

subsection \<open>ContentAwareChunk\<close>

text \<open>The two assignments of the last loop of \<^verbatim>\<open>ContentAwareChunk\<close>.\<close>

definition stamp :: "string \<Rightarrow> int \<Rightarrow> Chunk \<Rightarrow> Chunk" where
  "stamp targetChunkerType totalChunks c =
     c\<lparr>Meta := (Meta c)(''parser'' \<mapsto> MStr targetChunkerType, ''total_chunks'' \<mapsto> MInt totalChunks)\<rparr>"

definition ContentAwareChunk :: "libs \<Rightarrow> Content \<Rightarrow> int \<Rightarrow> int \<Rightarrow> Chunk list" where
  "ContentAwareChunk L content maxTokens overlap =
     (let targetChunkerType = ''fallback'';
          targetChunkerType =
            (case Metadata content of
               None \<Rightarrow> targetChunkerType
             | Some raw \<Rightarrow>
                 (if length raw > 0 then
                    (case json_string_field L raw ''chunker'' of
                       Some override \<Rightarrow> if override \<noteq> [] then ToLower (unicode_ToLower L) override else targetChunkerType
                     | None \<Rightarrow> targetChunkerType)
                  else targetChunkerType));
          targetChunkerType =
            (if targetChunkerType = ''fallback'' then
               (let contentTypeLower = ToLower (unicode_ToLower L) (ContentType content) in
                if Contains contentTypeLower ''markdown'' then ''markdown''
                else if Contains contentTypeLower ''html'' then ''html''
                else targetChunkerType)
             else targetChunkerType);
          (result, targetChunkerType) =
            (if targetChunkerType = ''markdown''
             then (MarkdownChunker_Chunk L content maxTokens overlap, targetChunkerType)
             else if targetChunkerType = ''html''
             then (htmlChunker_Chunk L content maxTokens overlap, targetChunkerType)
             else (FallbackChunker_Chunk L content maxTokens overlap, ''fallback''))
      in case result of
           Inl e \<Rightarrow>
             (if targetChunkerType \<noteq> ''fallback'' then
                (case FallbackChunker_Chunk L content maxTokens overlap of
                   Inl e' \<Rightarrow> []
                 | Inr cs \<Rightarrow> map (stamp ''fallback'' (int (length cs))) cs)
              else [])
         | Inr cs \<Rightarrow> map (stamp targetChunkerType (int (length cs))) cs)"

subsection \<open>Counting fields\<close>



section \<open>The input processor\<close>

text \<open>\<^verbatim>\<open>inputprocessor.Result\<close>.\<close>

record Result =
  r_Body :: string
  r_ContentType :: string
  r_FilePath :: "string option"
  r_FileSize :: "int option"
  r_URL :: "string option"
  r_Mtime :: "int option"
  r_Metadata :: "string \<rightharpoonup> string"

text \<open>What \<^verbatim>\<open>os.Stat\<close> tells about a path, and what \<^verbatim>\<open>url.Parse\<close> returns.\<close>

record FileInfo =
  IsDir :: bool
  Size :: int
  ModTime :: int

record URL =
  Scheme :: string
  String :: string

text \<open>
  An HTTP response: status code, the \<^verbatim>\<open>Content-Type\<close> header (empty when absent), the
  bytes of the body and the error, if any, that reading the body to its end reports.
\<close>

record Response =
  StatusCode :: int
  Header_ContentType :: string
  resp_Body :: string
  resp_ReadErr :: "err option"

text \<open>
  The \<^verbatim>\<open>context.Context\<close> of a call, as far as the code observes it: what
  \<^verbatim>\<open>ctx.Err()\<close> returns right after the \<open>k\<close>-th call made under the context, and
  whether \<^verbatim>\<open>ctx.Done()\<close> fires during the wait that follows the \<open>k\<close>-th call (then
  with which error).
\<close>

record ctx =
  Err_after_call :: "nat \<Rightarrow> err option"
  Done_in_wait :: "nat \<Rightarrow> err option"

definition Background :: ctx where
  "Background = \<lparr>Err_after_call = (\<lambda>k. None), Done_in_wait = (\<lambda>k. None)\<rparr>"

text \<open>
  The file system and the network as the processor sees them. \<open>http_Do ctx method url\<close>
  is \<^verbatim>\<open>http.DefaultClient.Do\<close> on the request that
  \<^verbatim>\<open>http.NewRequestWithContext(ctx, method, url, nil)\<close> built; \<open>RFC3339\<close> formats an
  instant.
\<close>

record os_env =
  os_Stat :: "string \<Rightarrow> err + FileInfo"
  os_ReadFile :: "string \<Rightarrow> err + string"
  filepath_Abs :: "string \<Rightarrow> err + string"
  url_Parse :: "string \<Rightarrow> err + URL"
  http_NewRequestWithContext :: "ctx \<Rightarrow> string \<Rightarrow> string \<Rightarrow> err option"
  http_Do :: "ctx \<Rightarrow> string \<Rightarrow> string \<Rightarrow> err + Response"
  http_DetectContentType :: "string \<Rightarrow> string"
  http_StatusText :: "int \<Rightarrow> string"
  RFC3339 :: "int \<Rightarrow> string"

definition http_StatusOK :: int where "http_StatusOK = 200"

definition empty_Result :: Result where
  "empty_Result = \<lparr>r_Body = [], r_ContentType = [], r_FilePath = None, r_FileSize = None,
     r_URL = None, r_Mtime = None, r_Metadata = Map.empty\<rparr>"

text \<open>The branch of \<^verbatim>\<open>Process\<close> for a path that is a file.\<close>

definition process_file :: "os_env \<Rightarrow> string \<Rightarrow> FileInfo \<Rightarrow> err + Result" where
  "process_file env input fi =
     (case os_ReadFile env input of
        Inl readErr \<Rightarrow>
          (if errors_Is readErr OsErrPermission
           then Inl (Wrapf ''permission denied reading file '%s': %w'' [S input] readErr)
           else Inl (Wrapf ''failed to read file '%s': %w'' [S input] readErr))
      | Inr data \<Rightarrow>
          (let ct = http_DetectContentType env data;
               absPath = (case filepath_Abs env input of Inl pathErr \<Rightarrow> input | Inr p \<Rightarrow> p);
               fileSize = Size fi;
               mtime = ModTime fi
           in Inr (empty_Result\<lparr>r_Body := data, r_ContentType := ct, r_FilePath := Some absPath,
                     r_FileSize := Some fileSize, r_Mtime := Some mtime,
                     r_Metadata := [''input_type'' \<mapsto> ''file'', ''mtime'' \<mapsto> RFC3339 env mtime]\<rparr>)))"

text \<open>The rest of \<^verbatim>\<open>Process\<close>, reached when the input is no file: URL, else raw text.\<close>

definition process_url_or_raw :: "os_env \<Rightarrow> ctx \<Rightarrow> string \<Rightarrow> err + Result" where
  "process_url_or_raw env c input =
     (case url_Parse env input of
        Inr parsedURL \<Rightarrow>
          (if Scheme parsedURL = ''http'' \<or> Scheme parsedURL = ''https'' then
             (case http_NewRequestWithContext env c ''GET'' input of
                Some reqErr \<Rightarrow>
                  Inl (Wrapf ''failed to create request for URL '%s': %w'' [S input] reqErr)
              | None \<Rightarrow>
                 (case http_Do env c ''GET'' input of
                    Inl httpErr \<Rightarrow> Inl (Wrapf ''failed to fetch URL '%s': %w'' [S input] httpErr)
                  | Inr resp \<Rightarrow>
                     (if StatusCode resp \<noteq> http_StatusOK then
                        Inl (Errorf ''failed to fetch URL '%s': status code %d %s - Body Hint: %s''
                               [S input, D (StatusCode resp), S (http_StatusText env (StatusCode resp)),
                                S (take 1024 (resp_Body resp))])
                      else (case resp_ReadErr resp of
                              Some readErr \<Rightarrow>
                                Inl (Wrapf ''failed to read response body from URL '%s': %w''
                                       [S input] readErr)
                            | None \<Rightarrow>
                               (let bodyBytes = resp_Body resp;
                                    ct = Header_ContentType resp;
                                    ct = (if ct = [] then http_DetectContentType env bodyBytes else ct);
                                    urlStr = String parsedURL
                                in Inr (empty_Result\<lparr>r_Body := bodyBytes, r_ContentType := ct,
                                          r_URL := Some urlStr,
                                          r_Metadata := [''input_type'' \<mapsto> ''url'']\<rparr>))))))
           else Inr (empty_Result\<lparr>r_Body := input, r_ContentType := ''text/plain; charset=utf-8'',
                       r_Metadata := [''input_type'' \<mapsto> ''raw'']\<rparr>))
      | Inl urlErr \<Rightarrow>
          Inr (empty_Result\<lparr>r_Body := input, r_ContentType := ''text/plain; charset=utf-8'',
                 r_Metadata := [''input_type'' \<mapsto> ''raw'']\<rparr>))"

definition Process :: "os_env \<Rightarrow> ctx \<Rightarrow> string \<Rightarrow> err + Result" where
  "Process env c input =
     (case os_Stat env input of
        Inr fi \<Rightarrow> (if IsDir fi then process_url_or_raw env c input else process_file env input fi)
      | Inl e \<Rightarrow>
          (if \<not> errors_Is e OsErrNotExist
           then Inl (Wrapf ''failed to stat input '%s': %w'' [S input] e)
           else process_url_or_raw env c input))"

section \<open>ListContent\<close>

text \<open>\<^verbatim>\<open>%d\<close> of \<^verbatim>\<open>fmt.Sprintf\<close> on a number that is not negative.\<close>

fun digits :: "nat \<Rightarrow> nat \<Rightarrow> string" where
  "digits 0 n = []"
| "digits (Suc fuel) n =
     (if n < 10 then [''0123456789'' ! n]
      else digits fuel (n div 10) @ [''0123456789'' ! (n mod 10)])"

definition itoa :: "nat \<Rightarrow> string" where
  "itoa n = digits (Suc n) n"

datatype sql_arg = AStr string | AInt int

text \<open>The first lines of the statement, up to \<^verbatim>\<open>FROM content c\<close> (layout white space of
  the raw literal as single spaces).\<close>

definition baseQuery :: string where
  "baseQuery = ''SELECT DISTINCT c.id, c.source_id, c.title, c.body, c.content_hash, '' @
     ''c.file_path, c.file_size, c.content_type, c.metadata, '' @
     ''c.summary, c.is_embedded, c.embedding_id, c.created_at, c.updated_at, c.modified_at '' @
     ''FROM content c''"

text \<open>The loop over \<^verbatim>\<open>filterTags\<close>: one placeholder and one argument per tag.\<close>

fun tag_placeholders :: "nat \<Rightarrow> string list \<Rightarrow> string list" where
  "tag_placeholders argID [] = []"
| "tag_placeholders argID (tag # tags) = (''$'' @ itoa argID) # tag_placeholders (argID + 1) tags"

definition validSortColumns :: "string \<Rightarrow> bool" where
  "validSortColumns = (\<lambda>k. False)(''c.id'' := True, ''c.title'' := True, ''c.created_at'' := True,
     ''c.updated_at'' := True, ''c.modified_at'' := True)"

definition sort_column :: "string \<Rightarrow> string" where
  "sort_column sortBy = (if \<not> validSortColumns sortBy then ''c.created_at'' else sortBy)"

text \<open>The direction; \<open>unicode_ToUpper\<close> is the upper-case table of package \<^verbatim>\<open>unicode\<close>.\<close>

definition sort_direction :: "(rune \<Rightarrow> rune) \<Rightarrow> string \<Rightarrow> string" where
  "sort_direction unicode_ToUpper sortOrder =
     (let sortOrder = ToUpper unicode_ToUpper sortOrder in
      if sortOrder \<noteq> ''ASC'' \<and> sortOrder \<noteq> ''DESC'' then ''DESC'' else sortOrder)"

definition orderByClause :: "(rune \<Rightarrow> rune) \<Rightarrow> string \<Rightarrow> string \<Rightarrow> string" where
  "orderByClause unicode_ToUpper sortBy sortOrder =
     '' ORDER BY '' @ sort_column sortBy @ '' '' @ sort_direction unicode_ToUpper sortOrder"

text \<open>The statement and the arguments \<^verbatim>\<open>ListContent\<close> sends.\<close>

definition ListContent_query ::
  "(rune \<Rightarrow> rune) \<Rightarrow> int \<Rightarrow> int \<Rightarrow> string \<Rightarrow> string \<Rightarrow> string list \<Rightarrow>
   string \<times> sql_arg list" where
  "ListContent_query unicode_ToUpper limit offset sortBy sortOrder filterTags =
     (let argID = 1;
          (joinClause, whereClause, args, argID) =
            (if length filterTags > 0
             then ('' JOIN content_tags ct ON c.id = ct.content_id JOIN tags t ON ct.tag_id = t.id'',
                   '' WHERE t.name IN ('' @ Join (tag_placeholders argID filterTags) '','' @ '')'',
                   map AStr filterTags, argID + length filterTags)
             else ([], [], [], argID));
          limit = (if limit \<le> 0 then 20 else limit);
          offset = (if offset < 0 then 0 else offset);
          limitClause = '' LIMIT $'' @ itoa argID @ '' OFFSET $'' @ itoa (argID + 1);
          args = args @ [AInt limit, AInt offset]
      in (baseQuery @ joinClause @ whereClause @ orderByClause unicode_ToUpper sortBy sortOrder @ limitClause, args))"

text \<open>\<^verbatim>\<open>ListContent\<close>; \<open>db_Query\<close> is the database answering a statement: an error, or
  rows that each scan or fail to scan, and the error the iteration ends with, if any.\<close>

fun scan_list :: "(err + Content) list \<Rightarrow> Content list \<Rightarrow> err + Content list" where
  "scan_list [] contents = Inr contents"
| "scan_list (Inl e # rows) contents = Inl (Wrapf ''failed to scan content row: %w'' [] e)"
| "scan_list (Inr content # rows) contents = scan_list rows (contents @ [content])"

definition ListContent ::
  "(rune \<Rightarrow> rune) \<Rightarrow> (string \<Rightarrow> sql_arg list \<Rightarrow> err + (err + Content) list \<times> err option) \<Rightarrow>
   int \<Rightarrow> int \<Rightarrow> string \<Rightarrow> string \<Rightarrow> string list \<Rightarrow> err + Content list" where
  "ListContent unicode_ToUpper db_Query limit offset sortBy sortOrder filterTags =
     (case ListContent_query unicode_ToUpper limit offset sortBy sortOrder filterTags of
        (fullQuery, args) \<Rightarrow>
          (case db_Query fullQuery args of
             Inl e \<Rightarrow> Inl (Wrapf ''failed to list content: %w'' [] e)
           | Inr (rows, rowsErr) \<Rightarrow>
               (case scan_list rows [] of
                  Inl e \<Rightarrow> Inl e
                | Inr contents \<Rightarrow>
                    (case rowsErr of
                       Some e \<Rightarrow> Inl (Wrapf ''error iterating content rows: %w'' [] e)
                     | None \<Rightarrow> Inr contents))))"

text \<open>The sort keys \<^verbatim>\<open>ListContent\<close> recognises.\<close>

definition sort_whitelist :: "string list" where
  "sort_whitelist = [''c.id'', ''c.title'', ''c.created_at'', ''c.updated_at'', ''c.modified_at'']"

section \<open>The fallback embedding service\<close>

text \<open>An element of a \<^verbatim>\<open>pgvector.Vector\<close>, as its 32 bits.\<close>

type_synonym float32 = "32 word"

type_synonym Vector = "float32 list"

text \<open>What a Go call does: it returns, or it panics.\<close>

datatype 'a outcome = Returns 'a | Panics string

text \<open>
  An \<^verbatim>\<open>EmbeddingProvider\<close>. \<open>p_GenerateEmbedding p k text\<close> is the result of its
  \<^verbatim>\<open>GenerateEmbedding\<close> when it is the call number \<open>k\<close> (from 0) that the service makes
  during one request: a provider may fail at one time and succeed at another.
  \<open>p_GenerateEmbeddings\<close> is its batch method, in the same way.
\<close>

record EmbeddingProvider =
  Name :: string
  ModelName :: string
  Dimension :: int
  p_GenerateEmbedding :: "nat \<Rightarrow> string \<Rightarrow> err + Vector"
  p_GenerateEmbeddings :: "nat \<Rightarrow> string list \<Rightarrow> err + Vector list"

text \<open>\<^verbatim>\<open>SimpleRetryStrategy\<close>; \<^verbatim>\<open>BaseDelayMs\<close> is an \<^verbatim>\<open>int64\<close>.\<close>

record SimpleRetryStrategy =
  MaxAttempts :: int
  BaseDelayMs :: "64 word"

text \<open>
  \<^verbatim>\<open>SimpleRetryStrategy.NextBackoff\<close>. The product \<^verbatim>\<open>BaseDelayMs * (1 << attempt)\<close> is
  computed in 64 bits and compared as a signed number. The service never passes a
  negative \<open>attempt\<close> (Go panics on a negative shift count).
\<close>

definition NextBackoff :: "SimpleRetryStrategy \<Rightarrow> int \<Rightarrow> int" where
  "NextBackoff s attempt =
     (if MaxAttempts s \<le> 0 then - 1
      else if attempt \<ge> MaxAttempts s then - 1
      else let backoff = sint (BaseDelayMs s * push_bit (nat attempt) 1);
               maxDelay = 30000
           in if backoff > maxDelay then maxDelay else backoff)"

text \<open>\<^verbatim>\<open>FallbackEmbeddingService\<close>; the strategy is its \<^verbatim>\<open>NextBackoff\<close> method.\<close>

record FallbackEmbeddingService =
  Providers :: "EmbeddingProvider list"
  ActiveProvider :: int
  RetryStrategy :: "int \<Rightarrow> int"

text \<open>The loop of \<^verbatim>\<open>NewFallbackEmbeddingService\<close> that compares the dimensions.\<close>

fun check_dimensions :: "int \<Rightarrow> EmbeddingProvider list \<Rightarrow> err option" where
  "check_dimensions dim [] = None"
| "check_dimensions dim (p # ps) =
     (if Dimension p \<noteq> dim
      then Some (Errorf
        ''all embedding providers must have the same dimension (provider %s has %d, expected %d)''
        [S (Name p), D (Dimension p), D dim])
      else check_dimensions dim ps)"

definition NewFallbackEmbeddingService ::
  "EmbeddingProvider list \<Rightarrow> (int \<Rightarrow> int) option \<Rightarrow> err + FallbackEmbeddingService" where
  "NewFallbackEmbeddingService providers strategy =
     (if length providers = 0 then Inl (Errorf ''at least one embedding provider is required'' [])
      else let strategy = (case strategy of
                             None \<Rightarrow> NextBackoff \<lparr>MaxAttempts = 3, BaseDelayMs = 100\<rparr>
                           | Some s \<Rightarrow> s)
           in case (if length providers > 1
                    then check_dimensions (Dimension (hd providers)) (tl providers) else None) of
                Some e \<Rightarrow> Inl e
              | None \<Rightarrow> Inr \<lparr>Providers = providers, ActiveProvider = 0, RetryStrategy = strategy\<rparr>)"

text \<open>
  The variables of one call of \<^verbatim>\<open>GenerateEmbedding\<close>: the service (its active index
  is shared state), \<^verbatim>\<open>initialProviderIndex\<close>, \<^verbatim>\<open>attempt\<close>, and the number of
  provider calls made so far.
\<close>

record call_state =
  svc :: FallbackEmbeddingService
  initialProviderIndex :: int
  attempt :: int
  calls :: nat

text \<open>
  The \<^verbatim>\<open>for\<close> loop of \<^verbatim>\<open>GenerateEmbedding\<close>, one iteration per unit of fuel; \<open>None\<close>
  when the fuel is spent and the loop is still running.
\<close>

fun embed_loop ::
  "nat \<Rightarrow> ctx \<Rightarrow> string \<Rightarrow> int \<Rightarrow> call_state \<Rightarrow> (err + Vector) outcome option \<times> call_state" where
  "embed_loop 0 c text numProviders st = (None, st)"
| "embed_loop (Suc fuel) c text numProviders st =
     (let currentProviderIndex = ActiveProvider (svc st) in
      if currentProviderIndex < 0 \<or> currentProviderIndex \<ge> int (length (Providers (svc st)))
      then (Some (Panics ''index out of range''), st)
      else
        let provider = Providers (svc st) ! nat currentProviderIndex;
            result = p_GenerateEmbedding provider (calls st) text;
            st = st\<lparr>calls := calls st + 1\<rparr>
        in case Err_after_call c (calls st) of
             Some ctxErr \<Rightarrow>
               (Some (Returns (Inl (Wrapf ''context cancelled during embedding generation: %w'' []
                                      ctxErr))), st)
           | None \<Rightarrow>
              (case result of
                 Inr vec \<Rightarrow> (Some (Returns (Inr vec)), st)
               | Inl e \<Rightarrow>
                  (let lastErr = Wrapf ''provider %s failed: %w'' [S (Name provider)] e;
                       backoffMs = RetryStrategy (svc st) (attempt st)
                   in if backoffMs < 0 then
                        (let nextProviderIndex = (ActiveProvider (svc st) + 1) mod numProviders in
                         if nextProviderIndex = initialProviderIndex st
                         then (Some (Returns (Inl (Wrapf
                                 ''all embedding providers failed after cycling through: last error: %w''
                                 [] lastErr))), st)
                         else embed_loop fuel c text numProviders
                                (st\<lparr>svc := (svc st)\<lparr>ActiveProvider := nextProviderIndex\<rparr>,
                                    initialProviderIndex := nextProviderIndex,
                                    attempt := 0\<rparr>))
                      else (case Done_in_wait c (calls st) of
                              Some ctxErr \<Rightarrow>
                                (Some (Returns (Inl (Wrapf
                                   ''context cancelled while waiting to retry: %w'' [] ctxErr))), st)
                            | None \<Rightarrow>
                                embed_loop fuel c text numProviders
                                  (st\<lparr>attempt := attempt st + 1\<rparr>)))))"

definition GenerateEmbedding ::
  "nat \<Rightarrow> ctx \<Rightarrow> FallbackEmbeddingService \<Rightarrow> string \<Rightarrow>
   (err + Vector) outcome option \<times> call_state" where
  "GenerateEmbedding fuel c s text =
     (let initialProviderIndex = ActiveProvider s;
          numProviders = int (length (Providers s));
          st = \<lparr>svc = s, initialProviderIndex = initialProviderIndex, attempt = 0, calls = 0\<rparr>
      in if numProviders = 0
         then (Some (Returns (Inl (Errorf ''no embedding providers configured'' []))), st)
         else embed_loop fuel c text numProviders st)"

text \<open>
  The \<^verbatim>\<open>for\<close> loop of \<^verbatim>\<open>GenerateEmbeddings\<close>, the batch method: the same loop, where
  a result with the wrong number of vectors counts as a failure.
\<close>

fun embed_batch_loop ::
  "nat \<Rightarrow> ctx \<Rightarrow> string list \<Rightarrow> int \<Rightarrow> call_state \<Rightarrow>
   (err + Vector list) outcome option \<times> call_state" where
  "embed_batch_loop 0 c texts numProviders st = (None, st)"
| "embed_batch_loop (Suc fuel) c texts numProviders st =
     (let currentProviderIndex = ActiveProvider (svc st) in
      if currentProviderIndex < 0 \<or> currentProviderIndex \<ge> int (length (Providers (svc st)))
      then (Some (Panics ''index out of range''), st)
      else
        let provider = Providers (svc st) ! nat currentProviderIndex;
            result = p_GenerateEmbeddings provider (calls st) texts;
            st = st\<lparr>calls := calls st + 1\<rparr>
        in case Err_after_call c (calls st) of
             Some ctxErr \<Rightarrow>
               (Some (Returns (Inl (Wrapf
                  ''context cancelled during batch embedding generation: %w'' [] ctxErr))), st)
           | None \<Rightarrow>
              (case (case result of
                       Inr vecs \<Rightarrow>
                         (if length vecs \<noteq> length texts
                          then Inl (Errorf ''provider %s returned mismatched vector count (%d != %d)''
                                      [S (Name provider), D (int (length vecs)),
                                       D (int (length texts))])
                          else Inr vecs)
                     | Inl e \<Rightarrow>
                         Inl (Wrapf ''provider %s failed batch generation: %w''
                                [S (Name provider)] e)) of
                 Inr vecs \<Rightarrow> (Some (Returns (Inr vecs)), st)
               | Inl lastErr \<Rightarrow>
                  (let backoffMs = RetryStrategy (svc st) (attempt st)
                   in if backoffMs < 0 then
                        (let nextProviderIndex = (ActiveProvider (svc st) + 1) mod numProviders in
                         if nextProviderIndex = initialProviderIndex st
                         then (Some (Returns (Inl (Wrapf
                                 ''all embedding providers failed batch generation after cycling through: last error: %w''
                                 [] lastErr))), st)
                         else embed_batch_loop fuel c texts numProviders
                                (st\<lparr>svc := (svc st)\<lparr>ActiveProvider := nextProviderIndex\<rparr>,
                                    initialProviderIndex := nextProviderIndex,
                                    attempt := 0\<rparr>))
                      else (case Done_in_wait c (calls st) of
                              Some ctxErr \<Rightarrow>
                                (Some (Returns (Inl (Wrapf
                                   ''context cancelled while waiting to retry batch: %w'' []
                                   ctxErr))), st)
                            | None \<Rightarrow>
                                embed_batch_loop fuel c texts numProviders
                                  (st\<lparr>attempt := attempt st + 1\<rparr>)))))"

definition GenerateEmbeddings ::
  "nat \<Rightarrow> ctx \<Rightarrow> FallbackEmbeddingService \<Rightarrow> string list \<Rightarrow>
   (err + Vector list) outcome option \<times> call_state" where
  "GenerateEmbeddings fuel c s texts =
     (let initialProviderIndex = ActiveProvider s;
          numProviders = int (length (Providers s));
          st = \<lparr>svc = s, initialProviderIndex = initialProviderIndex, attempt = 0, calls = 0\<rparr>
      in if numProviders = 0
         then (Some (Returns (Inl (Errorf ''no embedding providers configured'' []))), st)
         else embed_batch_loop fuel c texts numProviders st)"

section \<open>The ingestion orchestrator\<close>

text \<open>\<^verbatim>\<open>models.Source\<close>, \<^verbatim>\<open>models.Tag\<close> and the parameter structs.\<close>

record Source =
  s_ID :: int
  s_Name :: string
  s_Description :: "string option"
  s_URL :: "string option"
  s_SourceType :: string

record Tag =
  t_ID :: int
  t_Name :: string
  t_Slug :: string

record GetOrCreateSourceParams =
  gp_Name :: string
  gp_Type :: string
  gp_Desc :: "string option"
  gp_URL :: "string option"


text \<open>\<^verbatim>\<open>ContentWithCategories\<close> without its confidence, which \<^verbatim>\<open>AddContent\<close> does not read.\<close>

record ContentWithCategories =
  cw_Tags :: "string list"
  cw_Category :: string

text \<open>The parts of \<^verbatim>\<open>config.Config\<close> that \<^verbatim>\<open>AddContent\<close> reads.\<close>

record Config =
  Categorization_AutoApplyTags :: bool
  Summarization_Enabled :: bool
  Worker_Queues :: "string \<rightharpoonup> int"

text \<open>An \<^verbatim>\<open>asynq\<close> task and the options \<^verbatim>\<open>AddContent\<close> passes (the timeout in seconds).\<close>

record Task =
  task_Type :: string
  task_Payload :: string

datatype task_option = OptQueue string | OptMaxRetry int | OptTimeout int

text \<open>The interfaces \<^verbatim>\<open>store.JobClient\<close> and \<^verbatim>\<open>store.TagStore\<close>, as the answers of
  the methods \<^verbatim>\<open>AddContent\<close> calls.\<close>

record JobClient =
  jc_EnqueueEmbeddingJob :: "int \<Rightarrow> err option"
  jc_Enqueue :: "Task \<Rightarrow> string \<Rightarrow> int \<Rightarrow> task_option list \<Rightarrow> err option"

record TagStore =
  ts_GetOrCreateTagsByName :: "string list \<Rightarrow> err + Tag list"
  ts_AddTagsToContent :: "int \<Rightarrow> int list \<Rightarrow> err option"

text \<open>
  \<^verbatim>\<open>ContentService\<close> with the dependencies \<^verbatim>\<open>AddContent\<close> uses; a nil interface or
  pointer is \<open>None\<close>. \<open>contents_CreateContentIfNotExists\<close> answers with the error or the
  \<open>existed\<close> flag and with the content as the store left it behind the pointer.
\<close>

record ContentService =
  contents_CreateContentIfNotExists :: "Content \<Rightarrow> (err + bool) \<times> Content"
  tags :: TagStore
  jobs :: "JobClient option"
  ss_GetOrCreateSource :: "GetOrCreateSourceParams \<Rightarrow> err + Source option"
  processor_Process :: "ctx \<Rightarrow> string \<Rightarrow> err + Result"
  deps_Config :: "Config option"
  deps_CategorizationService :: "(string \<Rightarrow> string \<Rightarrow> err + ContentWithCategories) option"












section \<open>Concrete inputs\<close>

text \<open>Small database states and arguments on which the theorems below are exercised.\<close>

definition row1 :: Content where
  "row1 = \<lparr>ID = 1, SourceID = 1, Title = ''a'', Body = ''alpha'', ContentHash = ''h1'',
     FilePath = None, FileSize = None, ContentType = ''text/plain'', Metadata = None,
     EmbeddingID = None, IsEmbedded = False, LastAccessedAt = None, ModifiedAt = None,
     Summary = None, CreatedAt = 0, UpdatedAt = 0\<rparr>"

definition db1 :: pg where
  "db1 = \<lparr>content_tbl = [row1, row1\<lparr>ID := 2, ContentHash := ''h2''\<rparr>], content_seq = 3, source_ids = [1],
          jobs_tbl = [], jobs_seq = 1, fault = None\<rparr>"

definition params1 :: JobRecordParams where
  "params1 = \<lparr>JobID = ''6f1c0a52-8d0e-4b61-9a57-0c5d3a1e2b77'', TaskType = ''embedding:generate'',
      Payload = Some ''{\"content_id\":1}'', Queue = ''embeddings'', Status = ''enqueued'',
      RelatedEntityType = ''content'', RelatedEntityID = 1\<rparr>"

definition db0 :: pg where
  "db0 = \<lparr>content_tbl = [], content_seq = 1, source_ids = [], jobs_tbl = [], jobs_seq = 1, fault = None\<rparr>"

definition md_content :: Content where
  "md_content = \<lparr>ID = 1, SourceID = 1, Title = ''doc'',
     Body = ''## Intro'' @ [CHR 0x0A] @ ''para1'' @ [CHR 0x0A, CHR 0x0A] @ ''## Body'' @ [CHR 0x0A] @ ''para2'',
     ContentHash = [], FilePath = None, FileSize = None, ContentType = ''text/markdown'',
     Metadata = None, EmbeddingID = None, IsEmbedded = False, LastAccessedAt = None,
     ModifiedAt = None, Summary = None, CreatedAt = 0, UpdatedAt = 0\<rparr>"

text \<open>A case table for calls whose strings are ASCII, where the tables of package
  \<^verbatim>\<open>unicode\<close> are not consulted.\<close>

definition identity_table :: "rune \<Rightarrow> rune" where
  "identity_table r = r"

definition libs0 :: libs where
  "libs0 = \<lparr>tokenizer = None, html_Parse = (\<lambda>s. Inl (LibError ''no parser'')),
            json_string_field = (\<lambda>raw key. None), unicode_ToLower = identity_table\<rparr>"

definition html_content :: Content where
  "html_content = md_content\<lparr>Body := ''<p>hello world</p>'', ContentType := ''text/html''\<rparr>"

definition html_doc :: html_node where
  "html_doc = Node DocumentNode [] [Node ElementNode ''html''
     [Node ElementNode ''head'' [],
      Node ElementNode ''body'' [Node ElementNode ''p'' [Node TextNode ''hello world'' []]]]]"

definition libs_html :: libs where
  "libs_html = \<lparr>tokenizer = None,
      html_Parse = (\<lambda>s. if s = ''<p>hello world</p>'' then Inr html_doc else Inl (LibError ''unexpected input'')),
      json_string_field = (\<lambda>raw key. None), unicode_ToLower = identity_table\<rparr>"

definition env_status :: "int \<Rightarrow> os_env" where
  "env_status code =
     \<lparr>os_Stat = (\<lambda>p. Inl (Wrapf ''stat %s: %w'' [S p] OsErrNotExist)),
      os_ReadFile = (\<lambda>p. Inl (Wrapf ''open %s: %w'' [S p] OsErrNotExist)),
      filepath_Abs = (\<lambda>p. Inr p),
      url_Parse = (\<lambda>s. Inr \<lparr>Scheme = ''https'', String = s\<rparr>),
      http_NewRequestWithContext = (\<lambda>c method url. None),
      http_Do = (\<lambda>c method url.
         Inr \<lparr>StatusCode = code, Header_ContentType = ''text/html; charset=utf-8'',
              resp_Body = ''<p>hi</p>'', resp_ReadErr = None\<rparr>),
      http_DetectContentType = (\<lambda>data. ''text/plain; charset=utf-8''),
      http_StatusText = (\<lambda>n. if n = 500 then ''Internal Server Error''
                             else if n = 204 then ''No Content'' else ''OK''),
      RFC3339 = (\<lambda>t. [])\<rparr>"

definition db_two_rows :: "string \<Rightarrow> sql_arg list \<Rightarrow> err + (err + Content) list \<times> err option" where
  "db_two_rows q args = Inr ([Inr row1, Inr (row1\<lparr>ID := 2, ContentHash := ''h2''\<rparr>)], None)"

definition failing_provider :: "string \<Rightarrow> EmbeddingProvider" where
  "failing_provider name = \<lparr>Name = name, ModelName = ''m'', Dimension = 1536,
     p_GenerateEmbedding = (\<lambda>k text. Inl (LibError ''429 Too Many Requests'')),
     p_GenerateEmbeddings = (\<lambda>k texts. Inl (LibError ''429 Too Many Requests''))\<rparr>"

definition default_service :: "EmbeddingProvider list \<Rightarrow> FallbackEmbeddingService" where
  "default_service ps = \<lparr>Providers = ps, ActiveProvider = 0,
     RetryStrategy = NextBackoff \<lparr>MaxAttempts = 3, BaseDelayMs = 100\<rparr>\<rparr>"

definition hello :: Content where
  "hello = \<lparr>ID = 0, SourceID = 1, Title = ''greeting'', Body = ''hello world'', ContentHash = [],
     FilePath = None, FileSize = None, ContentType = ''text/plain; charset=utf-8'',
     Metadata = None, EmbeddingID = None, IsEmbedded = False, LastAccessedAt = None,
     ModifiedAt = None, Summary = None, CreatedAt = 0, UpdatedAt = 0\<rparr>"

definition db_src :: pg where
  "db_src = \<lparr>content_tbl = [], content_seq = 1, source_ids = [1], jobs_tbl = [], jobs_seq = 1,
             fault = None\<rparr>"

text \<open>Another connection that stores the same body between the lookup and the insert.\<close>

definition racing_insert :: "(string \<Rightarrow> string) \<Rightarrow> pg \<Rightarrow> pg" where
  "racing_insert sha256_hex db = snd (snd (CreateContent sha256_hex 5 db hello))"





section \<open>Verified properties\<close>

subsection \<open>Strings of ASCII bytes\<close>

text \<open>An ASCII byte is a rune of width 1, read forwards or backwards.\<close>

lemma DecodeRuneInString_ascii:
  "byte c < 0x80 \<Longrightarrow> DecodeRuneInString (c # cs) = (byte c, 1)"
  by (simp add: DecodeRuneInString_def first_size_def)

lemma DecodeLastRuneInString_ascii:
  "byte c < 0x80 \<Longrightarrow> DecodeLastRuneInString (cs @ [c]) = (byte c, 1)"
  by (simp add: DecodeLastRuneInString_def RuneSelf_def)

lemma runes_ascii:
  "byte c < 0x80 \<Longrightarrow> runes (c # cs) = (byte c, [c]) # runes cs"
  by (simp add: DecodeRuneInString_ascii)

lemma trim_left_ascii:
  "byte c < 0x80 \<Longrightarrow> trim_left (c # cs) = (if IsSpace (byte c) then trim_left cs else c # cs)"
  by (simp add: DecodeRuneInString_ascii)

lemma trim_right_ascii:
  "byte c < 0x80 \<Longrightarrow> trim_right (c # cs) = (if IsSpace (byte c) then trim_right cs else c # cs)"
  by (simp add: DecodeLastRuneInString_ascii)

declare runes.simps(2) [simp del]
declare trim_left.simps(2) [simp del]
declare trim_right.simps(2) [simp del]

lemmas strings_eval = runes_ascii trim_left_ascii trim_right_ascii byte_def IsSpace_def
  TrimSpace_def Fields_def

lemmas case_eval = ToLower_def ToUpper_def isASCII_def byte_def RuneSelf_def char_of_def
  bit_Suc_0_iff


subsection \<open>GetContentsByIDs\<close>

lemma find_app:
  "find P (xs @ ys) = (case find P xs of None \<Rightarrow> find P ys | Some x \<Rightarrow> Some x)"
  by (induction xs) auto

lemma scan_rows_no_fault:
  "(\<And>e. flt \<noteq> Some (ScanFails e)) \<Longrightarrow>
   scan_rows flt rows m = Inr (\<lambda>k. case find (\<lambda>c. ID c = k) (rev rows) of Some c \<Rightarrow> Some c | None \<Rightarrow> m k)"
proof (induction rows arbitrary: m)
  case Nil
  then show ?case by simp
next
  case (Cons c rows)
  have "scan_rows flt (c # rows) m = scan_rows flt rows (m(ID c \<mapsto> c))"
    using Cons.prems by (cases flt) (auto split: fault.splits)
  also have "\<dots> = Inr (\<lambda>k. case find (\<lambda>c. ID c = k) (rev rows) of Some c \<Rightarrow> Some c | None \<Rightarrow> (m(ID c \<mapsto> c)) k)"
    using Cons by blast
  finally show ?case
    by (auto simp: fun_eq_iff find_app split: option.splits)
qed

lemma find_Some_D: "find P xs = Some x \<Longrightarrow> P x \<and> x \<in> set xs"
  by (induction xs) (auto split: if_splits)

lemma find_None_D: "find P xs = None \<longleftrightarrow> (\<forall>x\<in>set xs. \<not> P x)"
  by (induction xs) auto

text \<open>
  C10. \<^verbatim>\<open>GetContentsByIDs\<close> on an empty id list returns an empty slice without
  touching the database (so even when the database is failing). When no statement
  fails, the call succeeds for every id list, the result has the length of the input and
  is aligned with it: entry \<open>i\<close> is nil exactly when no row has the id \<open>ids ! i\<close>, and
  otherwise it is a row of the table whose id is \<open>ids ! i\<close>.
\<close>

theorem GetContentsByIDs_aligned:
  "GetContentsByIDs db [] = Inr [] \<and>
   (fault db = None \<longrightarrow>
     (\<exists>results. GetContentsByIDs db ids = Inr results \<and> length results = length ids \<and>
        (\<forall>i < length ids.
           (case results ! i of
              None \<Rightarrow> ids ! i \<notin> ID ` set (content_tbl db)
            | Some c \<Rightarrow> ID c = ids ! i \<and> c \<in> set (content_tbl db)))))"
proof (intro conjI impI)
  show "GetContentsByIDs db [] = Inr []" by (simp add: GetContentsByIDs_def)
next
  assume nf: "fault db = None"
  let ?rows = "filter (\<lambda>c. ID c \<in> set ids) (content_tbl db)"
  let ?m = "\<lambda>k. case find (\<lambda>c. ID c = k) (rev ?rows) of Some c \<Rightarrow> Some c | None \<Rightarrow> Map.empty k"
  have q: "query_contents_by_ids db ids = Inr ?rows"
    using nf by (simp add: query_contents_by_ids_def)
  have s: "scan_rows (fault db) ?rows Map.empty = Inr ?m"
    using nf by (intro scan_rows_no_fault) simp
  show "\<exists>results. GetContentsByIDs db ids = Inr results \<and> length results = length ids \<and>
        (\<forall>i < length ids.
           (case results ! i of
              None \<Rightarrow> ids ! i \<notin> ID ` set (content_tbl db)
            | Some c \<Rightarrow> ID c = ids ! i \<and> c \<in> set (content_tbl db)))"
  proof (cases "ids = []")
    case True
    then show ?thesis by (simp add: GetContentsByIDs_def)
  next
    case False
    then have g: "GetContentsByIDs db ids = Inr (map ?m ids)"
      using q s nf by (simp add: GetContentsByIDs_def)
    have "\<forall>i < length ids.
           (case (map ?m ids) ! i of
              None \<Rightarrow> ids ! i \<notin> ID ` set (content_tbl db)
            | Some c \<Rightarrow> ID c = ids ! i \<and> c \<in> set (content_tbl db))"
    proof (intro allI impI)
      fix i assume i: "i < length ids"
      show "case (map ?m ids) ! i of
              None \<Rightarrow> ids ! i \<notin> ID ` set (content_tbl db)
            | Some c \<Rightarrow> ID c = ids ! i \<and> c \<in> set (content_tbl db)"
      proof (cases "find (\<lambda>c. ID c = ids ! i) (rev ?rows)")
        case None
        then have "\<forall>x\<in>set ?rows. ID x \<noteq> ids ! i" by (simp add: find_None_D)
        then have "ids ! i \<notin> ID ` set (content_tbl db)" using nth_mem[OF i] by auto
        then show ?thesis using None i by simp
      next
        case (Some c)
        then have "ID c = ids ! i \<and> c \<in> set (content_tbl db)" using find_Some_D[OF Some] by simp
        then show ?thesis using Some i nth_mem[OF i] by simp
      qed
    qed
    then show ?thesis using g by simp
  qed
qed

theorem GetContentsByIDs_aligned_witness:
  "fault db1 = None \<and> GetContentsByIDs db1 [2, 7, 1] = Inr [Some (row1\<lparr>ID := 2, ContentHash := ''h2''\<rparr>), None, Some row1]"
  using GetContentsByIDs_aligned [of db1 "[2, 7, 1]"]
  by (simp add: db1_def row1_def GetContentsByIDs_def query_contents_by_ids_def)

subsection \<open>RecordJobEnqueue\<close>

lemma RecordJobEnqueue_no_fault:
  assumes "fault db = None"
  shows "RecordJobEnqueue now db p =
     (None,
      if JobID p \<in> set (map bj_job_id (jobs_tbl db))
      then db\<lparr>jobs_seq := jobs_seq db + 1\<rparr>
      else db\<lparr>jobs_tbl := jobs_tbl db @
                 [\<lparr>bj_id = jobs_seq db, bj_job_id = JobID p, bj_task_type = TaskType p,
                   bj_payload = (case Payload p of Some x \<Rightarrow> x | None \<Rightarrow> ''{}''),
                   bj_queue = Queue p, bj_status = Status p,
                   bj_related_entity_type = RelatedEntityType p,
                   bj_related_entity_id =
                     (if RelatedEntityID p \<noteq> 0 then Some (RelatedEntityID p) else None),
                   bj_created_at = now, bj_updated_at = now\<rparr>],
              jobs_seq := jobs_seq db + 1\<rparr>)"
  using assms
  by (simp add: RecordJobEnqueue_def insert_job_on_conflict_do_nothing_def Let_def)

lemma count_job_id_distinct:
  "distinct (map bj_job_id js) \<Longrightarrow> j \<in> set (map bj_job_id js) \<Longrightarrow>
   length (filter (\<lambda>r. bj_job_id r = j) js) = 1"
proof (induction js)
  case Nil
  then show ?case by simp
next
  case (Cons r js)
  show ?case
  proof (cases "bj_job_id r = j")
    case True
    then have "j \<notin> set (map bj_job_id js)" using Cons.prems(1) by auto
    then have "filter (\<lambda>r. bj_job_id r = j) js = []"
      by (auto simp: filter_empty_conv)
    then show ?thesis using True by simp
  next
    case False
    then show ?thesis using Cons by auto
  qed
qed

text \<open>
  C9. Recording an enqueue event is idempotent on the task UUID. On a database whose
  statements do not fail and whose \<^verbatim>\<open>job_id\<close> column is unique, two calls of
  \<^verbatim>\<open>RecordJobEnqueue\<close> with the same task UUID both return the nil error, the second
  call leaves the table as the first one left it, and exactly one row carries the UUID.
\<close>

theorem RecordJobEnqueue_idempotent:
  assumes "fault db = None"
    and "distinct (map bj_job_id (jobs_tbl db))"
    and "JobID p' = JobID p"
    and "RecordJobEnqueue t1 db p = (e1, db')"
    and "RecordJobEnqueue t2 db' p' = (e2, db'')"
  shows "e1 = None \<and> e2 = None \<and> jobs_tbl db'' = jobs_tbl db' \<and>
         length (filter (\<lambda>r. bj_job_id r = JobID p) (jobs_tbl db'')) = 1"
proof -
  have r1: "RecordJobEnqueue t1 db p = (e1, db')" by (rule assms(4))
  have e1: "e1 = None" using r1 RecordJobEnqueue_no_fault[OF assms(1), of t1 p] by simp
  have f1: "fault db' = None"
    using r1 RecordJobEnqueue_no_fault[OF assms(1), of t1 p] assms(1)
    by (auto split: if_splits)
  have in1: "JobID p \<in> set (map bj_job_id (jobs_tbl db'))"
    using r1 RecordJobEnqueue_no_fault[OF assms(1), of t1 p]
    by (auto split: if_splits)
  have d1: "distinct (map bj_job_id (jobs_tbl db'))"
    using r1 RecordJobEnqueue_no_fault[OF assms(1), of t1 p] assms(2)
    by (auto split: if_splits)
  have r2: "(e2, db'') = (None, db'\<lparr>jobs_seq := jobs_seq db' + 1\<rparr>)"
    using assms(5) RecordJobEnqueue_no_fault[OF f1, of t2 p'] in1 assms(3) by simp
  then have e2: "e2 = None" and t2: "jobs_tbl db'' = jobs_tbl db'" by auto
  show ?thesis
    using e1 e2 t2 count_job_id_distinct[OF d1 in1] by simp
qed

theorem RecordJobEnqueue_idempotent_witness:
  "fault db0 = None \<and> distinct (map bj_job_id (jobs_tbl db0)) \<and>
   fst (RecordJobEnqueue 10 db0 params1) = None \<and>
   fst (RecordJobEnqueue 20 (snd (RecordJobEnqueue 10 db0 params1)) params1) = None \<and>
   length (jobs_tbl (snd (RecordJobEnqueue 20 (snd (RecordJobEnqueue 10 db0 params1)) params1))) = 1"
  using RecordJobEnqueue_idempotent [of db0 params1 params1 10
      "fst (RecordJobEnqueue 10 db0 params1)" "snd (RecordJobEnqueue 10 db0 params1)" 20
      "fst (RecordJobEnqueue 20 (snd (RecordJobEnqueue 10 db0 params1)) params1)"
      "snd (RecordJobEnqueue 20 (snd (RecordJobEnqueue 10 db0 params1)) params1)"]
  by (simp add: db0_def params1_def RecordJobEnqueue_def insert_job_on_conflict_do_nothing_def Let_def)

subsection \<open>Chunking parameters and token counts\<close>



lemma chunk_params_cases:
  "chunk_params maxTokens overlap =
     (let m = (if maxTokens \<le> 0 then 200 else maxTokens);
          ov = (if overlap < 0 then 50 else overlap)
      in (m, if ov \<ge> m then m - 1 else ov))"
  by (simp add: chunk_params_def Let_def DefaultMaxTokens_def DefaultOverlap_def)




lemma chunk_params_range:
  "chunk_params maxTokens overlap = (m, ov) \<Longrightarrow> 0 < m \<and> 0 \<le> ov \<and> ov < m"
  by (auto simp: chunk_params_cases Let_def split: if_splits)

lemma Fallback_params:
  assumes "chunk_params a b = chunk_params a' b'"
  shows "FallbackChunker_Chunk L c a b = FallbackChunker_Chunk L c a' b'"
  unfolding FallbackChunker_Chunk_def assms by (rule refl)

lemma Markdown_params:
  assumes "chunk_params a b = chunk_params a' b'"
  shows "MarkdownChunker_Chunk L c a b = MarkdownChunker_Chunk L c a' b'"
  unfolding MarkdownChunker_Chunk_def assms by (rule refl)




subsection \<open>The markdown example\<close>

lemma md_content_trimmed: "TrimSpace (Body md_content) = Body md_content"
  by (simp add: md_content_def strings_eval)

lemma md_content_headings: "find_headings 0 True (Body md_content) = [(0, 8, 3, 8), (16, 23, 19, 23)]"
  by (simp add: md_content_def match_heading_def isReSpace_def Let_def)

lemma section_before_headings: "processSection L 200 50 [] [] (0, []) = (0, [])"
  by (simp add: processSection_def TrimSpace_def)

lemma section_Intro: "processSection L 200 50 ([CHR 0x0A] @ ''para1'' @ [CHR 0x0A, CHR 0x0A]) ''Intro'' (0, [])
   = (1, [\<lparr>Text = ''para1'', Meta = markdown_meta ''Intro'' 0 False\<rparr>])"
  by (simp add: processSection_def strings_eval Split_def HasPrefix_def
      estimateTokens_def Let_def)

lemma section_Body: "processSection L 200 50 ([CHR 0x0A] @ ''para2'') ''Body'' (1, cs)
   = (2, cs @ [\<lparr>Text = ''para2'', Meta = markdown_meta ''Body'' 1 False\<rparr>])"
  by (simp add: processSection_def strings_eval Split_def HasPrefix_def
      estimateTokens_def Let_def)

lemma md_content_chunks:
  "MarkdownChunker_Chunk L md_content 200 50 =
     Inr [\<lparr>Text = ''para1'', Meta = markdown_meta ''Intro'' 0 False\<rparr>,
          \<lparr>Text = ''para2'', Meta = markdown_meta ''Body'' 1 False\<rparr>]"
proof -
  have p: "chunk_params 200 50 = (200, 50)"
    by (simp add: chunk_params_def DefaultMaxTokens_def DefaultOverlap_def)
  have s0: "slice (Body md_content) 0 0 = []" by (simp add: slice_def)
  have s1: "slice (Body md_content) 8 16 = [CHR 0x0A] @ ''para1'' @ [CHR 0x0A, CHR 0x0A]"
    by (simp add: slice_def md_content_def)
  have s2: "slice (Body md_content) 23 (length (Body md_content)) = [CHR 0x0A] @ ''para2''"
    by (simp add: slice_def md_content_def)
  have h1: "TrimSpace (slice (Body md_content) 3 8) = ''Intro''"
    by (simp add: slice_def md_content_def strings_eval)
  have h2: "TrimSpace (slice (Body md_content) 19 23) = ''Body''"
    by (simp add: slice_def md_content_def strings_eval)
  have nz: "Body md_content \<noteq> []" by (simp add: md_content_def)
  show ?thesis
    unfolding MarkdownChunker_Chunk_def md_content_trimmed md_content_headings Let_def p
    using nz
    by (simp add: s0 s1 s2 h1 h2 section_before_headings section_Intro section_Body del: append.simps append_Cons append_Nil)
qed

lemma dispatch_markdown:
  assumes "Metadata c = None" and "ContentType c = ''text/markdown''"
  shows "ContentAwareChunk L c maxTokens overlap =
     (case MarkdownChunker_Chunk L c maxTokens overlap of
        Inl e \<Rightarrow> (case FallbackChunker_Chunk L c maxTokens overlap of
                    Inl e' \<Rightarrow> [] | Inr cs \<Rightarrow> map (stamp ''fallback'' (int (length cs))) cs)
      | Inr cs \<Rightarrow> map (stamp ''markdown'' (int (length cs))) cs)"
  by (simp add: ContentAwareChunk_def assms case_eval HasPrefix_def Let_def)

lemma md_content_dispatch:
  "ContentAwareChunk L md_content maxTokens overlap =
     (case MarkdownChunker_Chunk L md_content maxTokens overlap of
        Inl e \<Rightarrow> (case FallbackChunker_Chunk L md_content maxTokens overlap of
                    Inl e' \<Rightarrow> [] | Inr cs \<Rightarrow> map (stamp ''fallback'' (int (length cs))) cs)
      | Inr cs \<Rightarrow> map (stamp ''markdown'' (int (length cs))) cs)"
  by (rule dispatch_markdown) (simp_all add: md_content_def)

text \<open>
  C5 (as the code has it). Chunking the markdown body
  \<^verbatim>\<open>## Intro\npara1\n\n## Body\npara2\<close> with the default parameters (200 and 50, given
  as such or as 0 and -1) emits exactly two chunks, with texts \<open>para1\<close> and \<open>para2\<close>,
  \<^verbatim>\<open>chunk_index\<close> 0 and 1 and \<^verbatim>\<open>total_chunks\<close> 2 on both; their
  \<^verbatim>\<open>source_heading\<close> values are the heading texts without the hashes, \<open>Intro\<close> and
  \<open>Body\<close>.
\<close>

theorem markdown_example_chunks:
  "map Text (ContentAwareChunk L md_content 200 50) = [''para1'', ''para2''] \<and>
   map (\<lambda>c. Meta c ''source_heading'') (ContentAwareChunk L md_content 200 50) =
     [Some (MStr ''Intro''), Some (MStr ''Body'')] \<and>
   map (\<lambda>c. Meta c ''chunk_index'') (ContentAwareChunk L md_content 200 50) =
     [Some (MInt 0), Some (MInt 1)] \<and>
   map (\<lambda>c. Meta c ''total_chunks'') (ContentAwareChunk L md_content 200 50) =
     [Some (MInt 2), Some (MInt 2)] \<and>
   ContentAwareChunk L md_content 0 (- 1) = ContentAwareChunk L md_content 200 50"
proof -
  have p: "chunk_params 0 (- 1) = chunk_params 200 50"
    by (simp add: chunk_params_def DefaultMaxTokens_def DefaultOverlap_def)
  have d: "ContentAwareChunk L md_content 0 (- 1) = ContentAwareChunk L md_content 200 50"
    by (simp only: md_content_dispatch Markdown_params[OF p] Fallback_params[OF p])
  show ?thesis
    using d by (simp add: md_content_dispatch md_content_chunks stamp_def markdown_meta_def)
qed

text \<open>The \<^verbatim>\<open>source_heading\<close> values are not \<open>## Intro\<close> and \<open>## Body\<close>.\<close>

theorem markdown_example_counterexample:
  "map (\<lambda>c. Meta c ''source_heading'') (ContentAwareChunk libs0 md_content 200 50) \<noteq>
     [Some (MStr ''## Intro''), Some (MStr ''## Body'')]"
  by (simp add: md_content_dispatch md_content_chunks stamp_def markdown_meta_def)

subsection \<open>The HTML chunker\<close>

text \<open>
  C4. For a non-empty HTML body the specification expects a traversal of the parsed tree, with
  \<^verbatim>\<open>source_tags\<close> on every chunk, and the \<^verbatim>\<open>html-fallback\<close> text chunks only
  when parsing fails. \<^verbatim>\<open>htmlChunker.Chunk\<close> tests \<^verbatim>\<open>len(chunks) == 0\<close> before it
  has started the traversal, so for every body that is not blank it returns the
  \<^verbatim>\<open>html-fallback\<close> chunks of \<^verbatim>\<open>simpleChunkText\<close>, whether or not the body parses.
\<close>

theorem htmlChunker_always_falls_back:
  assumes "TrimSpace (Body content) \<noteq> []"
  shows "htmlChunker_Chunk L content maxTokens overlap =
           Inr (simpleChunkText (Body content) (fst (chunk_params maxTokens overlap))
                  (snd (chunk_params maxTokens overlap)) ''html-fallback'')"
  using assms
  by (simp add: htmlChunker_Chunk_def Let_def split: sum.splits prod.splits)

lemma simpleChunkText_hello:
  "simpleChunkText ''<p>hello world</p>'' 200 50 ''html-fallback'' =
     [\<lparr>Text = ''<p>hello world</p>'',
       Meta = [''parser'' \<mapsto> MStr ''html-fallback'', ''chunk_index'' \<mapsto> MInt 0]\<rparr>]"
  by (simp add: simpleChunkText_def strings_eval Let_def slice_def)

theorem htmlChunker_always_falls_back_witness:
  "TrimSpace (Body html_content) \<noteq> [] \<and>
   html_Parse libs_html (TrimSpace (Body html_content)) = Inr html_doc \<and>
   htmlChunker_Chunk libs_html html_content 200 50 =
     Inr [\<lparr>Text = ''<p>hello world</p>'',
           Meta = [''parser'' \<mapsto> MStr ''html-fallback'', ''chunk_index'' \<mapsto> MInt 0]\<rparr>]"
proof -
  have t: "TrimSpace (Body html_content) = ''<p>hello world</p>''"
    by (simp add: html_content_def md_content_def strings_eval)
  have b: "Body html_content = ''<p>hello world</p>''"
    by (simp add: html_content_def md_content_def)
  have p: "chunk_params 200 50 = (200, 50)"
    by (simp add: chunk_params_def DefaultMaxTokens_def DefaultOverlap_def)
  have ne: "TrimSpace (Body html_content) \<noteq> []" by (simp add: t)
  show ?thesis
    using htmlChunker_always_falls_back [OF ne, of libs_html 200 50]
    by (simp add: b p simpleChunkText_hello libs_html_def strings_eval)
qed

subsection \<open>The input processor on URLs\<close>

lemma Process_url:
  assumes "os_Stat env input = Inl e" and "errors_Is e OsErrNotExist"
    and "url_Parse env input = Inr u" and "Scheme u = ''http'' \<or> Scheme u = ''https''"
    and "http_NewRequestWithContext env c ''GET'' input = None"
  shows "Process env c input =
     (case http_Do env c ''GET'' input of
        Inl httpErr \<Rightarrow> Inl (Wrapf ''failed to fetch URL '%s': %w'' [S input] httpErr)
      | Inr resp \<Rightarrow>
         (if StatusCode resp \<noteq> 200 then
            Inl (Errorf ''failed to fetch URL '%s': status code %d %s - Body Hint: %s''
                   [S input, D (StatusCode resp), S (http_StatusText env (StatusCode resp)),
                    S (take 1024 (resp_Body resp))])
          else (case resp_ReadErr resp of
                  Some readErr \<Rightarrow>
                    Inl (Wrapf ''failed to read response body from URL '%s': %w'' [S input] readErr)
                | None \<Rightarrow>
                    Inr (empty_Result\<lparr>r_Body := resp_Body resp,
                           r_ContentType := (if Header_ContentType resp = []
                                             then http_DetectContentType env (resp_Body resp)
                                             else Header_ContentType resp),
                           r_URL := Some (String u),
                           r_Metadata := [''input_type'' \<mapsto> ''url'']\<rparr>))))"
proof -
  have "Process env c input = process_url_or_raw env c input"
    using assms(1,2) by (simp add: Process_def)
  then show ?thesis
    using assms(3,4,5)
    by (auto simp: process_url_or_raw_def http_StatusOK_def Let_def split: sum.splits option.splits)
qed

text \<open>
  C7 (as the code has it). For an input that is not an existing path (\<^verbatim>\<open>os.Stat\<close>
  reports that it does not exist) and that parses as a URL with scheme http or https,
  \<^verbatim>\<open>Process\<close> performs one GET on the input under the context of the call. If the request
  fails the error is wrapped; on status 200 with a readable body it returns the body,
  the \<^verbatim>\<open>Content-Type\<close> header (the sniffed type when the header is empty) and the
  parsed URL; on every other status, 2xx other than 200 included, it fails with an
  error whose arguments hold the status code.
\<close>

theorem Process_url_fetch:
  assumes "os_Stat env input = Inl e" and "errors_Is e OsErrNotExist"
    and "url_Parse env input = Inr u" and "Scheme u = ''http'' \<or> Scheme u = ''https''"
    and "http_NewRequestWithContext env c ''GET'' input = None"
  shows "(\<forall>httpErr. http_Do env c ''GET'' input = Inl httpErr \<longrightarrow>
            Process env c input = Inl (Wrapf ''failed to fetch URL '%s': %w'' [S input] httpErr)) \<and>
         (\<forall>resp. http_Do env c ''GET'' input = Inr resp \<and> StatusCode resp = 200 \<and>
                 resp_ReadErr resp = None \<longrightarrow>
            Process env c input =
              Inr (empty_Result\<lparr>r_Body := resp_Body resp,
                     r_ContentType := (if Header_ContentType resp = []
                                       then http_DetectContentType env (resp_Body resp)
                                       else Header_ContentType resp),
                     r_URL := Some (String u),
                     r_Metadata := [''input_type'' \<mapsto> ''url'']\<rparr>)) \<and>
         (\<forall>resp. http_Do env c ''GET'' input = Inr resp \<and> StatusCode resp \<noteq> 200 \<longrightarrow>
            Process env c input =
              Inl (Errorf ''failed to fetch URL '%s': status code %d %s - Body Hint: %s''
                     [S input, D (StatusCode resp), S (http_StatusText env (StatusCode resp)),
                      S (take 1024 (resp_Body resp))]))"
  using Process_url[OF assms] by simp

theorem Process_url_fetch_witness:
  "Process (env_status 200) Background ''https://example.com/a'' =
     Inr (empty_Result\<lparr>r_Body := ''<p>hi</p>'', r_ContentType := ''text/html; charset=utf-8'',
            r_URL := Some ''https://example.com/a'',
            r_Metadata := [''input_type'' \<mapsto> ''url'']\<rparr>) \<and>
   Process (env_status 500) Background ''https://example.com/a'' =
     Inl (Errorf ''failed to fetch URL '%s': status code %d %s - Body Hint: %s''
            [S ''https://example.com/a'', D 500, S ''Internal Server Error'', S ''<p>hi</p>''])"
proof -
  have a: "os_Stat (env_status n) ''https://example.com/a'' =
             Inl (Wrapf ''stat %s: %w'' [S ''https://example.com/a''] OsErrNotExist)" for n
    by (simp add: env_status_def)
  have b: "errors_Is (Wrapf ''stat %s: %w'' [S ''https://example.com/a''] OsErrNotExist) OsErrNotExist"
    by simp
  have c: "url_Parse (env_status n) ''https://example.com/a'' =
             Inr \<lparr>Scheme = ''https'', String = ''https://example.com/a''\<rparr>" for n
    by (simp add: env_status_def)
  have d: "Scheme \<lparr>Scheme = ''https'', String = ''https://example.com/a''\<rparr> = ''http'' \<or>
           Scheme \<lparr>Scheme = ''https'', String = ''https://example.com/a''\<rparr> = ''https''"
    by simp
  have e: "http_NewRequestWithContext (env_status n) Background ''GET'' ''https://example.com/a'' = None" for n
    by (simp add: env_status_def)
  show ?thesis
    using Process_url_fetch [OF a b c d e, of 200] Process_url_fetch [OF a b c d e, of 500]
    by (simp add: env_status_def)
qed

text \<open>A response with status 204 is refused, although it is a 2xx status.\<close>

theorem Process_2xx_counterexample:
  "Process (env_status 204) Background ''https://example.com/a'' =
     Inl (Errorf ''failed to fetch URL '%s': status code %d %s - Body Hint: %s''
            [S ''https://example.com/a'', D 204, S ''No Content'', S ''<p>hi</p>''])"
  by (simp add: Process_def process_url_or_raw_def env_status_def http_StatusOK_def)

subsection \<open>The statement of ListContent\<close>

lemma validSortColumns_iff: "validSortColumns k \<longleftrightarrow> k \<in> set sort_whitelist"
  by (simp add: validSortColumns_def sort_whitelist_def)

lemma tag_placeholders_map:
  "tag_placeholders argID names = map (\<lambda>i. ''$'' @ itoa i) [argID ..< argID + length names]"
proof (induction names arbitrary: argID)
  case Nil
  then show ?case by simp
next
  case (Cons t names)
  have "[argID ..< argID + length (t # names)] = argID # [Suc argID ..< Suc argID + length names]"
    by (simp add: upt_rec)
  then show ?case using Cons[of "Suc argID"] by simp
qed

lemma sort_direction_cases:
  "sort_direction unicode_ToUpper sortOrder =
     (if ToUpper unicode_ToUpper sortOrder \<in> set [''ASC'', ''DESC'']
      then ToUpper unicode_ToUpper sortOrder else ''DESC'')"
  by (auto simp: sort_direction_def Let_def)

lemma ListContent_query_cases:
  "ListContent_query unicode_ToUpper limit offset sortBy sortOrder filterTags =
     (baseQuery @
      (if filterTags = [] then []
       else '' JOIN content_tags ct ON c.id = ct.content_id JOIN tags t ON ct.tag_id = t.id'' @
            '' WHERE t.name IN ('' @
            Join (map (\<lambda>i. ''$'' @ itoa i) [1 ..< 1 + length filterTags]) '','' @ '')'') @
      '' ORDER BY '' @ sort_column sortBy @ '' '' @ sort_direction unicode_ToUpper sortOrder @
      '' LIMIT $'' @ itoa (1 + length filterTags) @ '' OFFSET $'' @ itoa (2 + length filterTags),
      map AStr filterTags @
        [AInt (if limit \<le> 0 then 20 else limit), AInt (if offset < 0 then 0 else offset)])"
  by (cases "filterTags = []")
     (simp_all add: ListContent_query_def Let_def orderByClause_def tag_placeholders_map
        numeral_2_eq_2 del: upt_Suc)

lemma scan_list_all_rows: "scan_list (map Inr rows) acc = Inr (acc @ rows)"
  by (induction rows arbitrary: acc) simp_all

text \<open>
  C8 (as the code has it). \<^verbatim>\<open>ListContent\<close> sends one statement. When the sort key is
  one of the qualified names \<^verbatim>\<open>c.id\<close>, \<^verbatim>\<open>c.title\<close>, \<^verbatim>\<open>c.created_at\<close>,
  \<^verbatim>\<open>c.updated_at\<close>, \<^verbatim>\<open>c.modified_at\<close>, its \<^verbatim>\<open>ORDER BY\<close> column is that name; when
  the key is not one of them and does not name one of these columns without the
  qualifier either, the column is \<^verbatim>\<open>c.created_at\<close>. The direction does not depend on
  the key: it is the sort order upper-cased by \<^verbatim>\<open>strings.ToUpper\<close> when that is
  \<^verbatim>\<open>ASC\<close> or \<^verbatim>\<open>DESC\<close>, and \<^verbatim>\<open>DESC\<close> otherwise. A non-empty tag filter joins the
  tag tables and keeps the rows whose tag name is \<^verbatim>\<open>IN\<close> the list of the given names.
  No sort key makes the call fail: what the database returns for the statement is what
  the call returns.
\<close>

theorem ListContent_order_and_filter:
  "(sortBy \<in> set sort_whitelist \<longrightarrow> sort_column sortBy = sortBy) \<and>
   (sortBy \<notin> set sort_whitelist \<and> ''c.'' @ sortBy \<notin> set sort_whitelist \<longrightarrow>
      sort_column sortBy = ''c.created_at'') \<and>
   sort_direction unicode_ToUpper sortOrder =
     (if ToUpper unicode_ToUpper sortOrder \<in> set [''ASC'', ''DESC'']
      then ToUpper unicode_ToUpper sortOrder else ''DESC'') \<and>
   ListContent_query unicode_ToUpper limit offset sortBy sortOrder filterTags =
     (baseQuery @
      (if filterTags = [] then []
       else '' JOIN content_tags ct ON c.id = ct.content_id JOIN tags t ON ct.tag_id = t.id'' @
            '' WHERE t.name IN ('' @
            Join (map (\<lambda>i. ''$'' @ itoa i) [1 ..< 1 + length filterTags]) '','' @ '')'') @
      '' ORDER BY '' @ sort_column sortBy @ '' '' @ sort_direction unicode_ToUpper sortOrder @
      '' LIMIT $'' @ itoa (1 + length filterTags) @ '' OFFSET $'' @ itoa (2 + length filterTags),
      map AStr filterTags @
        [AInt (if limit \<le> 0 then 20 else limit), AInt (if offset < 0 then 0 else offset)]) \<and>
   (\<forall>rows. db_Query (fst (ListContent_query unicode_ToUpper limit offset sortBy sortOrder filterTags))
                    (snd (ListContent_query unicode_ToUpper limit offset sortBy sortOrder filterTags)) =
              Inr (map Inr rows, None) \<longrightarrow>
      ListContent unicode_ToUpper db_Query limit offset sortBy sortOrder filterTags = Inr rows)"
proof (intro conjI allI impI)
  show "sort_column sortBy = sortBy" if "sortBy \<in> set sort_whitelist"
    using that by (simp add: sort_column_def validSortColumns_iff)
next
  show "sort_column sortBy = ''c.created_at''"
    if "sortBy \<notin> set sort_whitelist \<and> ''c.'' @ sortBy \<notin> set sort_whitelist"
    using that by (simp add: sort_column_def validSortColumns_iff)
next
  show "sort_direction unicode_ToUpper sortOrder =
     (if ToUpper unicode_ToUpper sortOrder \<in> set [''ASC'', ''DESC'']
      then ToUpper unicode_ToUpper sortOrder else ''DESC'')"
    by (rule sort_direction_cases)
next
  show "ListContent_query unicode_ToUpper limit offset sortBy sortOrder filterTags =
     (baseQuery @
      (if filterTags = [] then []
       else '' JOIN content_tags ct ON c.id = ct.content_id JOIN tags t ON ct.tag_id = t.id'' @
            '' WHERE t.name IN ('' @
            Join (map (\<lambda>i. ''$'' @ itoa i) [1 ..< 1 + length filterTags]) '','' @ '')'') @
      '' ORDER BY '' @ sort_column sortBy @ '' '' @ sort_direction unicode_ToUpper sortOrder @
      '' LIMIT $'' @ itoa (1 + length filterTags) @ '' OFFSET $'' @ itoa (2 + length filterTags),
      map AStr filterTags @
        [AInt (if limit \<le> 0 then 20 else limit), AInt (if offset < 0 then 0 else offset)])"
    by (rule ListContent_query_cases)
next
  fix rows
  assume q: "db_Query (fst (ListContent_query unicode_ToUpper limit offset sortBy sortOrder filterTags))
                    (snd (ListContent_query unicode_ToUpper limit offset sortBy sortOrder filterTags)) =
              Inr (map Inr rows, None)"
  show "ListContent unicode_ToUpper db_Query limit offset sortBy sortOrder filterTags = Inr rows"
    using q scan_list_all_rows[of rows "[]"]
    by (cases "ListContent_query unicode_ToUpper limit offset sortBy sortOrder filterTags")
      (simp add: ListContent_def)
qed

theorem ListContent_order_and_filter_witness:
  "''c.title'' \<in> set sort_whitelist \<and>
   ''bogus'' \<notin> set sort_whitelist \<and> ''c.'' @ ''bogus'' \<notin> set sort_whitelist \<and>
   sort_column ''bogus'' = ''c.created_at'' \<and>
   ListContent_query identity_table 0 (- 3) ''c.title'' ''asc'' [''go'', ''db''] =
     (baseQuery @
      '' JOIN content_tags ct ON c.id = ct.content_id JOIN tags t ON ct.tag_id = t.id'' @
      '' WHERE t.name IN ($1,$2) ORDER BY c.title ASC LIMIT $3 OFFSET $4'',
      [AStr ''go'', AStr ''db'', AInt 20, AInt 0]) \<and>
   ListContent identity_table db_two_rows 0 (- 3) ''c.title'' ''asc'' [''go'', ''db''] =
     Inr [row1, row1\<lparr>ID := 2, ContentHash := ''h2''\<rparr>]"
proof -
  note T = ListContent_order_and_filter
    [where sortBy = "''c.title''" and unicode_ToUpper = identity_table and sortOrder = "''asc''"
       and limit = 0 and offset = "- 3" and filterTags = "[''go'', ''db'']"
       and db_Query = db_two_rows]
  note B = ListContent_order_and_filter
    [where sortBy = "''bogus''" and unicode_ToUpper = identity_table and sortOrder = "''asc''"
       and limit = 0 and offset = "- 3" and filterTags = "[''go'', ''db'']"
       and db_Query = db_two_rows]
  have w: "''c.title'' \<in> set sort_whitelist" "''bogus'' \<notin> set sort_whitelist"
    "''c.'' @ ''bogus'' \<notin> set sort_whitelist"
    by (simp_all add: sort_whitelist_def)
  have k: "sort_column ''c.title'' = ''c.title''"
    by (rule T[THEN conjunct1, THEN mp]) (rule w(1))
  have k': "sort_column ''bogus'' = ''c.created_at''"
    by (rule B[THEN conjunct2, THEN conjunct1, THEN mp]) (rule conjI[OF w(2) w(3)])
  have d: "sort_direction identity_table ''asc'' = ''ASC''"
    unfolding T[THEN conjunct2, THEN conjunct2, THEN conjunct1] by (simp add: case_eval)
  have i: "itoa (Suc 0) = ''1''" "itoa (Suc (Suc 0)) = ''2''" "itoa (Suc (Suc (Suc 0))) = ''3''"
    "itoa (Suc (Suc (Suc (Suc 0)))) = ''4''" "itoa 2 = ''2''" "itoa 3 = ''3''" "itoa 4 = ''4''"
    by (simp_all add: itoa_def eval_nat_numeral)
  have u: "[1 ..< 1 + length [''go'', ''db'']] = [1, 2]" by (simp add: upt_rec)
  have a: "ListContent_query identity_table 0 (- 3) ''c.title'' ''asc'' [''go'', ''db''] =
     (baseQuery @
      '' JOIN content_tags ct ON c.id = ct.content_id JOIN tags t ON ct.tag_id = t.id'' @
      '' WHERE t.name IN ($1,$2) ORDER BY c.title ASC LIMIT $3 OFFSET $4'',
      [AStr ''go'', AStr ''db'', AInt 20, AInt 0])"
    unfolding T[THEN conjunct2, THEN conjunct2, THEN conjunct2, THEN conjunct1] u k d
    by (simp add: i)
  have b: "ListContent identity_table db_two_rows 0 (- 3) ''c.title'' ''asc'' [''go'', ''db''] =
     Inr [row1, row1\<lparr>ID := 2, ContentHash := ''h2''\<rparr>]"
    by (rule T[THEN conjunct2, THEN conjunct2, THEN conjunct2, THEN conjunct2, THEN spec, THEN mp])
       (simp add: db_two_rows_def)
  show ?thesis by (intro conjI) (fact w k' a b)+
qed

text \<open>A key that names no column, with the order \<^verbatim>\<open>asc\<close>, sorts by
  \<^verbatim>\<open>c.created_at ASC\<close>, not \<^verbatim>\<open>DESC\<close>.\<close>

theorem ListContent_default_counterexample:
  "orderByClause identity_table ''bogus'' ''asc'' = '' ORDER BY c.created_at ASC''"
  by (simp add: orderByClause_def sort_column_def sort_direction_def validSortColumns_def case_eval)

subsection \<open>The fallback loop\<close>

text \<open>
  C2. The specification expects \<^verbatim>\<open>GenerateEmbedding\<close> to stop with an "all providers
  exhausted" error, after at most \<open>N\<close> times \<^verbatim>\<open>MaxAttempts\<close> provider calls, once the
  rotation is back at the index that was active when the call began. The loop resets
  \<^verbatim>\<open>initialProviderIndex\<close> at every switch, so with two or more providers that
  always fail, under a context that is never cancelled, the exhaustion test never
  succeeds: whatever the retry strategy, the loop is still running after any number of
  iterations, and it has made one provider call in each.
\<close>

theorem embed_loop_never_exhausts:
  assumes fail: "\<And>p k. p \<in> set (Providers (svc st)) \<Longrightarrow> \<exists>e. p_GenerateEmbedding p k text = Inl e"
    and ctx: "\<And>k. Err_after_call c k = None" "\<And>k. Done_in_wait c k = None"
    and n: "numProviders = int (length (Providers (svc st)))" "2 \<le> numProviders"
    and act: "0 \<le> ActiveProvider (svc st)" "ActiveProvider (svc st) < numProviders"
    and ini: "initialProviderIndex st = ActiveProvider (svc st)"
  shows "\<exists>st'. embed_loop fuel c text numProviders st = (None, st') \<and> calls st' = calls st + fuel"
  using fail n act ini
proof (induction fuel arbitrary: st)
  case 0
  then show ?case by simp
next
  case (Suc fuel)
  let ?a = "ActiveProvider (svc st)"
  let ?p = "Providers (svc st) ! nat ?a"
  have inr: "nat ?a < length (Providers (svc st))" using Suc.prems(2,4,5) by simp
  then have pin: "?p \<in> set (Providers (svc st))" by simp
  obtain e where e: "p_GenerateEmbedding ?p (calls st) text = Inl e"
    using Suc.prems(1)[OF pin] by blast
  let ?st1 = "st\<lparr>calls := calls st + 1\<rparr>"
  let ?next = "(?a + 1) mod numProviders"
  have next_ne: "?next \<noteq> ?a"
  proof (cases "?a + 1 < numProviders")
    case True
    then show ?thesis using Suc.prems(4) by simp
  next
    case False
    then have "?a + 1 = numProviders" using Suc.prems(5) by simp
    then show ?thesis using Suc.prems(3,4) by simp
  qed
  have next_rng: "0 \<le> ?next" "?next < numProviders" using Suc.prems(3) by simp_all
  show ?case
  proof (cases "RetryStrategy (svc st) (attempt st) < 0")
    case True
    let ?st2 = "?st1\<lparr>svc := (svc ?st1)\<lparr>ActiveProvider := ?next\<rparr>,
                     initialProviderIndex := ?next, attempt := 0\<rparr>"
    have step: "embed_loop (Suc fuel) c text numProviders st = embed_loop fuel c text numProviders ?st2"
      using e True next_ne Suc.prems(2,4,5,6) ctx by (simp add: Let_def)
    have "\<exists>st'. embed_loop fuel c text numProviders ?st2 = (None, st') \<and> calls st' = calls ?st2 + fuel"
      using Suc.prems(1,2,3) next_rng by (intro Suc.IH) simp_all
    then show ?thesis using step by auto
  next
    case False
    let ?st2 = "?st1\<lparr>attempt := attempt ?st1 + 1\<rparr>"
    have step: "embed_loop (Suc fuel) c text numProviders st = embed_loop fuel c text numProviders ?st2"
      using e False Suc.prems(2,4,5) ctx by (simp add: Let_def)
    have "\<exists>st'. embed_loop fuel c text numProviders ?st2 = (None, st') \<and> calls st' = calls ?st2 + fuel"
      using Suc.prems by (intro Suc.IH) simp_all
    then show ?thesis using step by auto
  qed
qed

theorem GenerateEmbedding_two_failing_never_returns:
  "\<forall>fuel t.
     fst (GenerateEmbedding fuel Background
          (default_service [failing_provider ''A'', failing_provider ''B'']) t) = None \<and>
     calls (snd (GenerateEmbedding fuel Background
          (default_service [failing_provider ''A'', failing_provider ''B'']) t)) = fuel"
proof (intro allI)
  fix fuel t
  let ?s = "default_service [failing_provider ''A'', failing_provider ''B'']"
  let ?st = "\<lparr>svc = ?s, initialProviderIndex = ActiveProvider ?s, attempt = 0, calls = 0\<rparr>"
  have "\<exists>st'. embed_loop fuel Background t 2 ?st = (None, st') \<and> calls st' = calls ?st + fuel"
    by (rule embed_loop_never_exhausts)
       (auto simp: default_service_def failing_provider_def Background_def)
  then show "fst (GenerateEmbedding fuel Background ?s t) = None \<and>
     calls (snd (GenerateEmbedding fuel Background ?s t)) = fuel"
    by (auto simp: GenerateEmbedding_def Let_def default_service_def)
qed

text \<open>The batch method \<^verbatim>\<open>GenerateEmbeddings\<close> has the same loop and spins in the same way.\<close>

lemma embed_batch_loop_never_exhausts:
  assumes fail: "\<And>p k. p \<in> set (Providers (svc st)) \<Longrightarrow> \<exists>e. p_GenerateEmbeddings p k texts = Inl e"
    and ctx: "\<And>k. Err_after_call c k = None" "\<And>k. Done_in_wait c k = None"
    and n: "numProviders = int (length (Providers (svc st)))" "2 \<le> numProviders"
    and act: "0 \<le> ActiveProvider (svc st)" "ActiveProvider (svc st) < numProviders"
    and ini: "initialProviderIndex st = ActiveProvider (svc st)"
  shows "\<exists>st'. embed_batch_loop fuel c texts numProviders st = (None, st') \<and> calls st' = calls st + fuel"
  using fail n act ini
proof (induction fuel arbitrary: st)
  case 0
  then show ?case by simp
next
  case (Suc fuel)
  let ?a = "ActiveProvider (svc st)"
  let ?p = "Providers (svc st) ! nat ?a"
  have inr: "nat ?a < length (Providers (svc st))" using Suc.prems(2,4,5) by simp
  then have pin: "?p \<in> set (Providers (svc st))" by simp
  obtain e where e: "p_GenerateEmbeddings ?p (calls st) texts = Inl e"
    using Suc.prems(1)[OF pin] by blast
  let ?st1 = "st\<lparr>calls := calls st + 1\<rparr>"
  let ?next = "(?a + 1) mod numProviders"
  have next_ne: "?next \<noteq> ?a"
  proof (cases "?a + 1 < numProviders")
    case True
    then show ?thesis using Suc.prems(4) by simp
  next
    case False
    then have "?a + 1 = numProviders" using Suc.prems(5) by simp
    then show ?thesis using Suc.prems(3,4) by simp
  qed
  have next_rng: "0 \<le> ?next" "?next < numProviders" using Suc.prems(3) by simp_all
  show ?case
  proof (cases "RetryStrategy (svc st) (attempt st) < 0")
    case True
    let ?st2 = "?st1\<lparr>svc := (svc ?st1)\<lparr>ActiveProvider := ?next\<rparr>,
                     initialProviderIndex := ?next, attempt := 0\<rparr>"
    have step: "embed_batch_loop (Suc fuel) c texts numProviders st = embed_batch_loop fuel c texts numProviders ?st2"
      using e True next_ne Suc.prems(2,4,5,6) ctx by (simp add: Let_def)
    have "\<exists>st'. embed_batch_loop fuel c texts numProviders ?st2 = (None, st') \<and> calls st' = calls ?st2 + fuel"
      using Suc.prems(1,2,3) next_rng by (intro Suc.IH) simp_all
    then show ?thesis using step by auto
  next
    case False
    let ?st2 = "?st1\<lparr>attempt := attempt ?st1 + 1\<rparr>"
    have step: "embed_batch_loop (Suc fuel) c texts numProviders st = embed_batch_loop fuel c texts numProviders ?st2"
      using e False Suc.prems(2,4,5) ctx by (simp add: Let_def)
    have "\<exists>st'. embed_batch_loop fuel c texts numProviders ?st2 = (None, st') \<and> calls st' = calls ?st2 + fuel"
      using Suc.prems by (intro Suc.IH) simp_all
    then show ?thesis using step by auto
  qed
qed

text \<open>With one provider the call does stop, after \<^verbatim>\<open>MaxAttempts + 1\<close> provider calls:
  four under the default strategy, not three.\<close>

lemma NextBackoff_default:
  "NextBackoff \<lparr>MaxAttempts = 3, BaseDelayMs = 100\<rparr> 0 = 100"
  "NextBackoff \<lparr>MaxAttempts = 3, BaseDelayMs = 100\<rparr> 1 = 200"
  "NextBackoff \<lparr>MaxAttempts = 3, BaseDelayMs = 100\<rparr> 2 = 400"
  "NextBackoff \<lparr>MaxAttempts = 3, BaseDelayMs = 100\<rparr> 3 = - 1"
  by (simp_all add: NextBackoff_def)

lemma GenerateEmbedding_one_failing_four_calls:
  "GenerateEmbedding 4 Background (default_service [failing_provider ''A'']) text =
     (Some (Returns (Inl (Wrapf
        ''all embedding providers failed after cycling through: last error: %w'' []
        (Wrapf ''provider %s failed: %w'' [S ''A''] (LibError ''429 Too Many Requests''))))),
      \<lparr>svc = default_service [failing_provider ''A''], initialProviderIndex = 0, attempt = 3,
        calls = 4\<rparr>)"
  by (simp add: GenerateEmbedding_def default_service_def failing_provider_def Background_def
      NextBackoff_default eval_nat_numeral Let_def)

subsection \<open>CreateContentIfNotExists\<close>

lemma FindContentByHash_absent:
  "fault db = None \<Longrightarrow> h \<notin> set (map ContentHash (content_tbl db)) \<Longrightarrow>
   FindContentByHash db h = Inl ErrNotFound"
proof -
  assume nf: "fault db = None" and ab: "h \<notin> set (map ContentHash (content_tbl db))"
  have "filter (\<lambda>c. ContentHash c = h) (content_tbl db) = []"
    using ab by (auto simp: filter_empty_conv)
  then show ?thesis using nf by (simp add: FindContentByHash_def query_row_by_hash_def)
qed

lemma FindContentByHash_present:
  "fault db = None \<Longrightarrow> h \<in> set (map ContentHash (content_tbl db)) \<Longrightarrow>
   \<exists>c. FindContentByHash db h = Inr c \<and> c \<in> set (content_tbl db) \<and> ContentHash c = h"
proof -
  assume nf: "fault db = None" and pr: "h \<in> set (map ContentHash (content_tbl db))"
  obtain c cs where f: "filter (\<lambda>c. ContentHash c = h) (content_tbl db) = c # cs"
    using pr by (cases "filter (\<lambda>c. ContentHash c = h) (content_tbl db)")
      (auto simp: filter_empty_conv)
  then have "c \<in> set (filter (\<lambda>c. ContentHash c = h) (content_tbl db))" by simp
  then have "c \<in> set (content_tbl db) \<and> ContentHash c = h" by simp
  then show ?thesis using nf f by (simp add: FindContentByHash_def query_row_by_hash_def)
qed

lemma CreateContent_duplicate:
  "fault db = None \<Longrightarrow> sha256_hex (Body content) \<in> set (map ContentHash (content_tbl db)) \<Longrightarrow>
   fst (CreateContent sha256_hex now db content) =
     Some (Wrapf ''content with hash %s already exists (use CreateContentIfNotExists): %w''
             [S (sha256_hex (Body content))] ErrDuplicate)"
  by (simp add: CreateContent_def insert_content_def calculateHash_def Let_def)

text \<open>
  C1. The specification expects a call that loses the race on the unique hash to fetch the
  winning row and return it with \<open>existed = true\<close>. \<^verbatim>\<open>CreateContent\<close> answers the
  unique violation with an error that wraps \<^verbatim>\<open>store.ErrDuplicate\<close> and no longer
  holds the \<^verbatim>\<open>*pgconn.PgError\<close>, so the test \<^verbatim>\<open>errors.As(err, &pgErr)\<close> of
  \<^verbatim>\<open>CreateContentIfNotExists\<close> fails: when the hash is absent at the lookup and
  present at the insert, the call returns the error "failed to create new content".
\<close>

theorem CreateContentIfNotExists_lost_race:
  assumes "fault db = None"
    and "sha256_hex (Body content) \<notin> set (map ContentHash (content_tbl db))"
    and "fault (others db) = None"
    and "sha256_hex (Body content) \<in> set (map ContentHash (content_tbl (others db)))"
  shows "fst (CreateContentIfNotExists sha256_hex now others db content) =
     Inl (Wrapf ''failed to create new content: %w'' []
            (Wrapf ''content with hash %s already exists (use CreateContentIfNotExists): %w''
               [S (sha256_hex (Body content))] ErrDuplicate))"
proof -
  let ?c = "content\<lparr>ContentHash := calculateHash sha256_hex (Body content)\<rparr>"
  have a: "FindContentByHash db (sha256_hex (Body content)) = Inl ErrNotFound"
    using assms(1,2) by (rule FindContentByHash_absent)
  have b: "fst (CreateContent sha256_hex now (others db) ?c) =
     Some (Wrapf ''content with hash %s already exists (use CreateContentIfNotExists): %w''
             [S (sha256_hex (Body content))] ErrDuplicate)"
    using CreateContent_duplicate[OF assms(3), of sha256_hex ?c now] assms(4) by simp
  obtain e c' db' where r: "CreateContent sha256_hex now (others db) ?c = (e, c', db')"
    by (cases "CreateContent sha256_hex now (others db) ?c") auto
  show ?thesis
    using a b r by (simp add: CreateContentIfNotExists_def calculateHash_def Let_def)
qed

theorem CreateContentIfNotExists_lost_race_witness:
  "\<forall>sha256_hex now.
     fault db_src = None \<and>
     sha256_hex (Body hello) \<notin> set (map ContentHash (content_tbl db_src)) \<and>
     sha256_hex (Body hello) \<in> set (map ContentHash (content_tbl (racing_insert sha256_hex db_src))) \<and>
     fst (CreateContentIfNotExists sha256_hex now (racing_insert sha256_hex) db_src hello) =
       Inl (Wrapf ''failed to create new content: %w'' []
              (Wrapf ''content with hash %s already exists (use CreateContentIfNotExists): %w''
                 [S (sha256_hex ''hello world'')] ErrDuplicate))"
proof (intro allI)
  fix sha256_hex :: "string \<Rightarrow> string" and now :: int
  have r: "racing_insert sha256_hex db_src =
     db_src\<lparr>content_tbl := [hello\<lparr>ContentHash := sha256_hex ''hello world'', Metadata := Some ''{}'',
                                 ID := 1, CreatedAt := 5, UpdatedAt := 5\<rparr>],
            content_seq := 2\<rparr>"
    by (simp add: racing_insert_def CreateContent_def insert_content_def calculateHash_def
        db_src_def hello_def Let_def)
  have 1: "fault db_src = None" by (simp add: db_src_def)
  have 2: "sha256_hex (Body hello) \<notin> set (map ContentHash (content_tbl db_src))"
    by (simp add: db_src_def)
  have 3: "fault (racing_insert sha256_hex db_src) = None" by (subst r) (simp add: db_src_def)
  have 4: "sha256_hex (Body hello) \<in> set (map ContentHash (content_tbl (racing_insert sha256_hex db_src)))"
    by (subst r) (simp add: hello_def)
  have 5: "Body hello = ''hello world''" by (simp add: hello_def)
  show "fault db_src = None \<and>
     sha256_hex (Body hello) \<notin> set (map ContentHash (content_tbl db_src)) \<and>
     sha256_hex (Body hello) \<in> set (map ContentHash (content_tbl (racing_insert sha256_hex db_src))) \<and>
     fst (CreateContentIfNotExists sha256_hex now (racing_insert sha256_hex) db_src hello) =
       Inl (Wrapf ''failed to create new content: %w'' []
              (Wrapf ''content with hash %s already exists (use CreateContentIfNotExists): %w''
                 [S (sha256_hex ''hello world'')] ErrDuplicate))"
    using CreateContentIfNotExists_lost_race
        [of db_src sha256_hex hello "racing_insert sha256_hex" now, OF 1 2 3 4] 1 2 4
    by (simp add: 5)
qed

text \<open>
  Without a concurrent writer the call is idempotent: a body that is not stored yet is
  inserted under its hash and reported as new; once a row has the hash, every call with
  the same body returns a stored row with that hash and leaves the database as it is.
\<close>

lemma CreateContentIfNotExists_first_call:
  assumes "fault db = None"
    and "sha256_hex (Body content) \<notin> set (map ContentHash (content_tbl db))"
    and "SourceID content \<in> set (source_ids db)"
  shows "\<exists>c db'. CreateContentIfNotExists sha256_hex now (\<lambda>d. d) db content = (Inr False, c, db') \<and>
           ContentHash c = sha256_hex (Body content) \<and> ID c = content_seq db \<and> fault db' = None \<and>
           content_tbl db' = content_tbl db @
             [c\<lparr>EmbeddingID := None, IsEmbedded := False, LastAccessedAt := None\<rparr>]"
  using assms FindContentByHash_absent[OF assms(1,2)]
  by (simp add: CreateContentIfNotExists_def CreateContent_def insert_content_def
      calculateHash_def Let_def)

lemma CreateContentIfNotExists_later_call:
  assumes "fault db = None"
    and "sha256_hex (Body content) \<in> set (map ContentHash (content_tbl db))"
  shows "\<exists>c. CreateContentIfNotExists sha256_hex now others db content = (Inr True, c, db) \<and>
           c \<in> set (content_tbl db) \<and> ContentHash c = sha256_hex (Body content)"
  using FindContentByHash_present[OF assms]
  by (auto simp: CreateContentIfNotExists_def calculateHash_def Let_def)

subsection \<open>AddContent on a duplicate\<close>









end
